theory Spec2Isabelle
  imports Complex_Main "HOL-Library.Char_ord" "HOL-Library.List_Lexorder" "HOL-Library.AList"
begin

section \<open>Python values\<close>

text \<open>
  The program is the single script \<^verbatim>\<open>script.py\<close>. Its values are modelled as follows.
  \<^item> A Python \<^verbatim>\<open>str\<close> is a \<^typ>\<open>string\<close>; one \<^typ>\<open>char\<close> stands for one code point
    below 256 (Latin-1), so \<open>length\<close> counts what Python's \<^verbatim>\<open>len\<close> counts.
  \<^item> A Python \<^verbatim>\<open>int\<close> is an \<^typ>\<open>int\<close>.
  \<^item> A Python \<^verbatim>\<open>float\<close> is an exact \<^typ>\<open>rat\<close>: binary rounding error, signed zero,
    infinities and NaN are not modelled.
  \<^item> A raised exception is a value of type \<open>error\<close>, returned as \<open>Inl\<close>. The messages
    of the exceptions of the libraries are abridged.
\<close>

datatype error =
    ConfigLoadError
  | ValueError string
  | KeyError string
  | IndexError string
  | OverflowError
  | ZeroDivisionError
  | FetchError string

text \<open>\<^verbatim>\<open>str(e)\<close> for an exception \<open>e\<close>; a \<^verbatim>\<open>KeyError\<close> prints its key quoted.\<close>

fun str_error :: "error \<Rightarrow> string" where
  "str_error ConfigLoadError = ''config.json''"
| "str_error (ValueError m) = m"
| "str_error (KeyError k) = [CHR 0x27] @ k @ [CHR 0x27]"
| "str_error (IndexError m) = m"
| "str_error OverflowError = ''date value out of range''"
| "str_error ZeroDivisionError = ''float division by zero''"
| "str_error (FetchError m) = m"

subsection \<open>Decimal digits\<close>

definition digit_char :: "nat \<Rightarrow> char" where
  "digit_char n = char_of (48 + n)"

definition is_digit :: "char \<Rightarrow> bool" where
  "is_digit c = (48 \<le> (of_char c :: nat) \<and> (of_char c :: nat) \<le> 57)"

definition digit_val :: "char \<Rightarrow> nat" where
  "digit_val c = of_char c - 48"

text \<open>\<^verbatim>\<open>str(n)\<close> for a natural number.\<close>

fun str_nat :: "nat \<Rightarrow> string" where
  "str_nat n = (if n < 10 then [digit_char n] else str_nat (n div 10) @ [digit_char (n mod 10)])"

declare str_nat.simps [simp del]

definition str_int :: "int \<Rightarrow> string" where
  "str_int i = (if i < 0 then CHR ''-'' # str_nat (nat (- i)) else str_nat (nat i))"

text \<open>Left padding with zeros up to a width, as the \<^verbatim>\<open>0\<close> flag of a format spec does.\<close>

definition zero_pad :: "nat \<Rightarrow> string \<Rightarrow> string" where
  "zero_pad w s = replicate (w - length s) CHR ''0'' @ s"

text \<open>The format spec \<^verbatim>\<open>02d\<close>: the sign counts towards the width of two.\<close>

definition fmt_02d :: "int \<Rightarrow> string" where
  "fmt_02d i = (if i < 0 then CHR ''-'' # zero_pad 1 (str_nat (nat (- i)))
                else zero_pad 2 (str_nat (nat i)))"

text \<open>\<^verbatim>\<open>int(s)\<close> on a string of decimal digits.\<close>

definition nat_of_digits :: "string \<Rightarrow> nat" where
  "nat_of_digits s = foldl (\<lambda>acc c. 10 * acc + digit_val c) 0 s"

section \<open>Calendar dates\<close>

text \<open>\<^verbatim>\<open>datetime.date\<close>: a proleptic Gregorian date with year 1 to 9999.\<close>

record date =
  year :: nat
  month :: nat
  day :: nat

definition is_leap :: "nat \<Rightarrow> bool" where
  "is_leap y = (y mod 4 = 0 \<and> (y mod 100 \<noteq> 0 \<or> y mod 400 = 0))"

definition days_in_month :: "nat \<Rightarrow> nat \<Rightarrow> nat" where
  "days_in_month y m =
     (if m = 2 then (if is_leap y then 29 else 28)
      else if m = 4 \<or> m = 6 \<or> m = 9 \<or> m = 11 then 30 else 31)"

definition valid_date :: "date \<Rightarrow> bool" where
  "valid_date d = (1 \<le> year d \<and> year d \<le> 9999 \<and> 1 \<le> month d \<and> month d \<le> 12 \<and>
                   1 \<le> day d \<and> day d \<le> days_in_month (year d) (month d))"

subsection \<open>\<^verbatim>\<open>strptime\<close> with the format \<^verbatim>\<open>%d/%m/%Y\<close>\<close>

text \<open>
  The directive \<^verbatim>\<open>%d\<close> is the regular expression
  \<^verbatim>\<open>3[0-1]|[1-2]\d|0[1-9]|[1-9]| [1-9]\<close>, \<^verbatim>\<open>%m\<close> is \<^verbatim>\<open>1[0-2]|0[1-9]|[1-9]\<close> and
  \<^verbatim>\<open>%Y\<close> is four digits; the whole string must be consumed. Each field is followed
  by a character that is no digit, so a two-character alternative is taken whenever it
  matches.
\<close>

definition day2_ok :: "char \<Rightarrow> char \<Rightarrow> bool" where
  "day2_ok a b =
     ((a = CHR ''3'' \<and> (b = CHR ''0'' \<or> b = CHR ''1''))
      \<or> ((a = CHR ''1'' \<or> a = CHR ''2'') \<and> is_digit b)
      \<or> (a = CHR ''0'' \<and> is_digit b \<and> b \<noteq> CHR ''0'')
      \<or> (a = CHR '' '' \<and> is_digit b \<and> b \<noteq> CHR ''0''))"

definition month2_ok :: "char \<Rightarrow> char \<Rightarrow> bool" where
  "month2_ok a b =
     ((a = CHR ''1'' \<and> (b = CHR ''0'' \<or> b = CHR ''1'' \<or> b = CHR ''2''))
      \<or> (a = CHR ''0'' \<and> is_digit b \<and> b \<noteq> CHR ''0''))"

definition field_val :: "char \<Rightarrow> char \<Rightarrow> nat" where
  "field_val a b = (if a = CHR '' '' then digit_val b else 10 * digit_val a + digit_val b)"

fun parse_field :: "(char \<Rightarrow> char \<Rightarrow> bool) \<Rightarrow> string \<Rightarrow> (nat \<times> string) option" where
  "parse_field ok (a # b # rest) =
     (if ok a b then Some (field_val a b, rest)
      else if is_digit a \<and> a \<noteq> CHR ''0'' then Some (digit_val a, b # rest)
      else None)"
| "parse_field ok [a] = (if is_digit a \<and> a \<noteq> CHR ''0'' then Some (digit_val a, []) else None)"
| "parse_field ok [] = None"

definition strptime_error :: "string \<Rightarrow> error" where
  "strptime_error s = ValueError (''time data '' @ s @ '' does not match format %d/%m/%Y'')"

definition strptime :: "string \<Rightarrow> error + date" where
  "strptime s =
     (case parse_field day2_ok s of
        Some (d, CHR ''/'' # r1) \<Rightarrow>
          (case parse_field month2_ok r1 of
             Some (m, CHR ''/'' # r2) \<Rightarrow>
               (if length r2 = 4 \<and> list_all is_digit r2
                then (let dt = \<lparr>year = nat_of_digits r2, month = m, day = d\<rparr>
                      in if valid_date dt then Inr dt else Inl (strptime_error s))
                else Inl (strptime_error s))
           | _ \<Rightarrow> Inl (strptime_error s))
      | _ \<Rightarrow> Inl (strptime_error s))"

subsection \<open>\<^verbatim>\<open>strftime\<close>\<close>

text \<open>\<^verbatim>\<open>%d\<close> and \<^verbatim>\<open>%m\<close> print two digits; \<^verbatim>\<open>%Y\<close> prints the year in decimal.\<close>

definition fmt_dd :: "date \<Rightarrow> string" where
  "fmt_dd d = zero_pad 2 (str_nat (day d))"

definition fmt_mm :: "date \<Rightarrow> string" where
  "fmt_mm d = zero_pad 2 (str_nat (month d))"

definition fmt_yyyy :: "date \<Rightarrow> string" where
  "fmt_yyyy d = str_nat (year d)"

text \<open>\<^verbatim>\<open>strftime('%d/%m/%Y')\<close>, \<^verbatim>\<open>strftime('%d-%m-%Y')\<close> and \<^verbatim>\<open>strftime('%Y-%m-%d')\<close>.\<close>

definition strftime_slash :: "date \<Rightarrow> string" where
  "strftime_slash d = fmt_dd d @ ''/'' @ fmt_mm d @ ''/'' @ fmt_yyyy d"

definition strftime_dash :: "date \<Rightarrow> string" where
  "strftime_dash d = fmt_dd d @ ''-'' @ fmt_mm d @ ''-'' @ fmt_yyyy d"

definition strftime_iso :: "date \<Rightarrow> string" where
  "strftime_iso d = fmt_yyyy d @ ''-'' @ fmt_mm d @ ''-'' @ fmt_dd d"

section \<open>Invoice numbering\<close>

text \<open>
  \<^verbatim>\<open>generate_invoice_id(date_str, number)\<close>. The prefix is \<^verbatim>\<open>N\<close>, the degree sign
  (code point 0xB0), a space and \<^verbatim>\<open>#\<close>.
\<close>

definition invoice_prefix :: string where
  "invoice_prefix = [CHR ''N'', CHR 0xB0, CHR '' '', CHR ''#'']"

definition generate_invoice_id :: "string \<Rightarrow> int \<Rightarrow> error + string" where
  "generate_invoice_id date_str number =
     (case strptime date_str of
        Inl e \<Rightarrow> Inl e
      | Inr dt \<Rightarrow> Inr (invoice_prefix @ strftime_dash dt @ ''-'' @ fmt_02d number))"

section \<open>Text wrapping\<close>

text \<open>
  The script wraps text with \<^verbatim>\<open>textwrap.wrap(text, width=w)\<close> of the Python standard
  library, with every option at its default: tabs are expanded, whitespace is replaced
  by spaces, whitespace at the ends of a line is dropped, hyphenated words may be broken
  after a hyphen, and a word longer than the width is broken.
\<close>

subsection \<open>Character classes\<close>

text \<open>The whitespace of \<^verbatim>\<open>textwrap\<close>: tab, line feed, vertical tab, form feed, return, space.\<close>

definition tw_space :: "char \<Rightarrow> bool" where
  "tw_space c = (let n = (of_char c :: nat) in (9 \<le> n \<and> n \<le> 13) \<or> n = 32)"

text \<open>\<^verbatim>\<open>str.isspace\<close> on one code point below 256, as \<^verbatim>\<open>str.strip\<close> uses it.\<close>

definition py_isspace :: "char \<Rightarrow> bool" where
  "py_isspace c = (let n = (of_char c :: nat) in
      (9 \<le> n \<and> n \<le> 13) \<or> (28 \<le> n \<and> n \<le> 32) \<or> n = 133 \<or> n = 160)"

text \<open>The class \<^verbatim>\<open>\w\<close> of the \<^verbatim>\<open>re\<close> module on code points below 256.\<close>

definition is_word :: "char \<Rightarrow> bool" where
  "is_word c = (let n = (of_char c :: nat) in
      (48 \<le> n \<and> n \<le> 57) \<or> (65 \<le> n \<and> n \<le> 90) \<or> n = 95 \<or> (97 \<le> n \<and> n \<le> 122)
      \<or> n = 170 \<or> n = 178 \<or> n = 179 \<or> n = 181 \<or> n = 185 \<or> n = 186
      \<or> (188 \<le> n \<and> n \<le> 190) \<or> (192 \<le> n \<and> n \<le> 214) \<or> (216 \<le> n \<and> n \<le> 246)
      \<or> 248 \<le> n)"

text \<open>The class \<^verbatim>\<open>[^\d\W]\<close>: a word character that is no decimal digit.\<close>

definition is_letter :: "char \<Rightarrow> bool" where
  "is_letter c = (is_word c \<and> \<not> is_digit c)"

text \<open>The class \<^verbatim>\<open>[\w!"'&.,?]\<close>.\<close>

definition word_punct :: "char \<Rightarrow> bool" where
  "word_punct c = (is_word c \<or> c \<in> set [CHR ''!'', CHR 0x22, CHR 0x27, CHR ''&'', CHR ''.'',
                                        CHR '','', CHR ''?''])"

subsection \<open>Whitespace munging\<close>

text \<open>\<^verbatim>\<open>str.expandtabs(8)\<close>; the first argument is the current column.\<close>

fun expandtabs :: "nat \<Rightarrow> string \<Rightarrow> string" where
  "expandtabs j [] = []"
| "expandtabs j (c # cs) =
     (if c = CHR 0x09 then replicate (8 - j mod 8) CHR '' '' @ expandtabs (j + (8 - j mod 8)) cs
      else if c = CHR 0x0A \<or> c = CHR 0x0D then c # expandtabs 0 cs
      else c # expandtabs (j + 1) cs)"

definition munge_whitespace :: "string \<Rightarrow> string" where
  "munge_whitespace text = map (\<lambda>c. if tw_space c then CHR '' '' else c) (expandtabs 0 text)"

subsection \<open>Splitting into chunks\<close>

text \<open>
  \<^verbatim>\<open>_split\<close> cuts the text with the regular expression \<^verbatim>\<open>wordsep_re\<close>, whose matches
  tile the text. A match is a run of whitespace, or a run of two or more hyphens between
  a word character and a following \<^verbatim>\<open>\w\<close>, or the shortest run of other characters that
  ends after the hyphen of a hyphenated word, before whitespace or the end, or before
  such a run of hyphens. The lookbehinds read the text before the match, which the
  functions below carry reversed in their first argument.
\<close>

text \<open>The lookahead \<^verbatim>\<open>(?=-{2,}\w)\<close>.\<close>

definition emdash_ahead :: "string \<Rightarrow> bool" where
  "emdash_ahead r =
     (let h = takeWhile (\<lambda>c. c = CHR ''-'') r
      in 2 \<le> length h \<and> (case drop (length h) r of [] \<Rightarrow> False | x # _ \<Rightarrow> is_word x))"

text \<open>
  The lookbehinds \<^verbatim>\<open>(?<=[^\d\W]{2}-)\<close> and \<^verbatim>\<open>(?<=[^\d\W]-[^\d\W]-)\<close>, read on the
  reversed text that ends with the hyphen.
\<close>

fun hyph_behind :: "string \<Rightarrow> bool" where
  "hyph_behind (h # a # b # rest) =
     ((is_letter a \<and> is_letter b)
      \<or> (is_letter a \<and> b = CHR ''-'' \<and> (case rest of [] \<Rightarrow> False | c # _ \<Rightarrow> is_letter c)))"
| "hyph_behind _ = False"

text \<open>The lookahead \<^verbatim>\<open>(?=[^\d\W]-?[^\d\W])\<close>.\<close>

fun hyph_ahead :: "string \<Rightarrow> bool" where
  "hyph_ahead (a # b # rest) =
     (is_letter a \<and> (if b = CHR ''-'' then (case rest of [] \<Rightarrow> False | c # _ \<Rightarrow> is_letter c)
                      else is_letter b))"
| "hyph_ahead _ = False"

text \<open>
  The number of further characters of a word chunk, after at least one character of it
  has been read; \<open>lb\<close> is the text read so far, reversed.
\<close>

fun word_len :: "string \<Rightarrow> string \<Rightarrow> nat" where
  "word_len lb [] = 0"
| "word_len lb (c # cs) =
     (if c = CHR ''-'' \<and> hyph_behind (c # lb) \<and> hyph_ahead cs then 1
      else if tw_space c then 0
      else if lb \<noteq> [] \<and> word_punct (hd lb) \<and> emdash_ahead (c # cs) then 0
      else 1 + word_len (c # lb) cs)"

text \<open>The length of the chunk that starts the text \<open>r\<close>, after the reversed text \<open>lb\<close>.\<close>

fun chunk_len :: "string \<Rightarrow> string \<Rightarrow> nat" where
  "chunk_len lb [] = 0"
| "chunk_len lb (c # cs) =
     (if tw_space c then length (takeWhile tw_space (c # cs))
      else if lb \<noteq> [] \<and> word_punct (hd lb) \<and> emdash_ahead (c # cs)
        then length (takeWhile (\<lambda>x. x = CHR ''-'') (c # cs))
      else 1 + word_len (c # lb) cs)"

function split_chunks :: "string \<Rightarrow> string \<Rightarrow> string list" where
  "split_chunks lb r =
     (if r = [] then []
      else (let n = chunk_len lb r
            in take n r # split_chunks (rev (take n r) @ lb) (drop n r)))"
  by pat_completeness auto
termination
proof (relation "measure (\<lambda>(lb, r). length r)")
  show "wf (measure (\<lambda>(lb, r). length r))" by simp
next
  fix lb r :: string and n :: nat
  assume r: "r \<noteq> []" and n: "n = chunk_len lb r"
  have "0 < chunk_len lb r"
    using r by (cases r) (auto simp: emdash_ahead_def)
  then show "((rev (take n r) @ lb, drop n r), (lb, r)) \<in> measure (\<lambda>(lb, r). length r)"
    using r n by simp
qed

declare split_chunks.simps [simp del]

subsection \<open>Filling lines\<close>

text \<open>\<^verbatim>\<open>s.strip() == ''\<close>: the chunk has only whitespace (or is empty).\<close>

definition blank :: "string \<Rightarrow> bool" where
  "blank s = list_all py_isspace s"

text \<open>
  The inner loop of \<^verbatim>\<open>_wrap_chunks\<close>: chunks are moved to the current line while they
  fit. The result is the line, its length and the chunks left. The chunk list is kept in
  reading order; the source reverses it and pops from the end.
\<close>

fun take_fitting :: "nat \<Rightarrow> nat \<Rightarrow> string list \<Rightarrow> string list \<times> nat \<times> string list" where
  "take_fitting width cur_len [] = ([], cur_len, [])"
| "take_fitting width cur_len (c # cs) =
     (if cur_len + length c \<le> width
      then (case take_fitting width (cur_len + length c) cs of
              (line, n, rest) \<Rightarrow> (c # line, n, rest))
      else ([], cur_len, c # cs))"

text \<open>\<^verbatim>\<open>s.rfind('-')\<close>: the last index of a hyphen.\<close>

definition rfind_hyphen :: "string \<Rightarrow> nat option" where
  "rfind_hyphen s =
     (case filter (\<lambda>i. s ! i = CHR ''-'') (rev [0..<length s]) of
        [] \<Rightarrow> None
      | i # _ \<Rightarrow> Some i)"

text \<open>
  \<^verbatim>\<open>_handle_long_word\<close> with \<^verbatim>\<open>break_long_words\<close> and \<^verbatim>\<open>break_on_hyphens\<close>: the
  part of the chunk put on the current line and the part left. The width is positive
  and the line is never longer than the width.
\<close>

definition handle_long_word :: "nat \<Rightarrow> nat \<Rightarrow> string \<Rightarrow> string \<times> string" where
  "handle_long_word width cur_len chunk =
     (let space_left = width - cur_len;
          e = (if space_left < length chunk
               then (case rfind_hyphen (take space_left chunk) of
                       Some h \<Rightarrow>
                         if 0 < h \<and> list_ex (\<lambda>c. c \<noteq> CHR ''-'') (take h chunk)
                         then h + 1 else space_left
                     | None \<Rightarrow> space_left)
               else space_left)
      in (take e chunk, drop e chunk))"

text \<open>
  One pass of the outer loop of \<^verbatim>\<open>_wrap_chunks\<close>: the chunks of the next line (empty
  when the pass adds no line) and the chunks left. \<open>started\<close> says that \<^verbatim>\<open>lines\<close> is
  not empty.
\<close>

definition next_line :: "nat \<Rightarrow> bool \<Rightarrow> string list \<Rightarrow> string list \<times> string list" where
  "next_line width started chunks =
     (let chunks1 = (if started \<and> blank (hd chunks) then tl chunks else chunks)
      in case take_fitting width 0 chunks1 of
           (cur_line, cur_len, chunks2) \<Rightarrow>
             (let (cur_line2, chunks3) =
                    (if chunks2 \<noteq> [] \<and> width < length (hd chunks2)
                     then (case handle_long_word width cur_len (hd chunks2) of
                             (a, b) \<Rightarrow> (cur_line @ [a], b # tl chunks2))
                     else (cur_line, chunks2))
              in (if cur_line2 \<noteq> [] \<and> blank (last cur_line2) then butlast cur_line2
                  else cur_line2,
                  chunks3)))"

function wrap_chunks :: "nat \<Rightarrow> bool \<Rightarrow> string list \<Rightarrow> string list" where
  "wrap_chunks width started chunks =
     (if width = 0 \<or> chunks = [] then []
      else (case next_line width started chunks of
              (cur_line, rest) \<Rightarrow>
                if cur_line \<noteq> [] then concat cur_line # wrap_chunks width True rest
                else wrap_chunks width started rest))"
  by pat_completeness auto
termination
proof (relation "measure (\<lambda>(w, st, chunks). length (concat chunks) + length chunks)")
  show "wf (measure (\<lambda>(w, st, chunks). length (concat chunks) + length chunks))" by simp
next
  define csize :: "string list \<Rightarrow> nat" where "csize = (\<lambda>chunks. length (concat chunks) + length chunks)"
  have tf: "take_fitting w n cs = (line, m, rest) \<Longrightarrow>
        ((rest = cs \<and> m = n) \<or> csize rest < csize cs) \<and> m \<le> max n w
         \<and> (rest \<noteq> [] \<longrightarrow> w < m + length (hd rest))" for w n cs line m rest
  proof (induction cs arbitrary: n line m rest)
    case Nil
    then show ?case by (auto simp: csize_def)
  next
    case (Cons c cs)
    show ?case
    proof (cases "n + length c \<le> w")
      case True
      then obtain l' where t: "take_fitting w (n + length c) cs = (l', m, rest)"
        using Cons.prems by (auto split: prod.splits)
      from Cons.IH [OF t] True show ?thesis by (auto simp: csize_def)
    next
      case False
      then show ?thesis using Cons.prems by (auto simp: csize_def)
    qed
  qed
  have rf: "rfind_hyphen s = Some h \<Longrightarrow> h < length s" for s h
  proof -
    assume a: "rfind_hyphen s = Some h"
    then obtain js where "filter (\<lambda>i. s ! i = CHR ''-'') (rev [0..<length s]) = h # js"
      by (auto simp: rfind_hyphen_def split: list.splits)
    then have "h \<in> set (filter (\<lambda>i. s ! i = CHR ''-'') (rev [0..<length s]))" by simp
    then show "h < length s" by simp
  qed
  have hl: "handle_long_word w n k = (a, b) \<Longrightarrow> n \<le> w \<Longrightarrow> w < length k \<Longrightarrow>
        length b < length k \<or> (n = w \<and> b = k)" for w n k a b
  proof -
    assume h: "handle_long_word w n k = (a, b)" and nw: "n \<le> w" and k: "w < length k"
    define e where "e = (case rfind_hyphen (take (w - n) k) of
                       Some h \<Rightarrow> if 0 < h \<and> list_ex (\<lambda>c. c \<noteq> CHR ''-'') (take h k)
                         then h + 1 else w - n
                     | None \<Rightarrow> w - n)"
    have b: "b = drop e k" using h k by (auto simp: handle_long_word_def e_def Let_def)
    have "e = w - n \<or> 0 < e" by (auto simp: e_def split: option.splits)
    then show ?thesis using b nw k by (cases "e = 0") auto
  qed
  have nl: "0 < w \<Longrightarrow> chunks \<noteq> [] \<Longrightarrow> next_line w st chunks = (l, rest) \<Longrightarrow>
        csize rest < csize chunks" for w st chunks l rest
  proof -
    assume w: "0 < w" and ne: "chunks \<noteq> []" and nx: "next_line w st chunks = (l, rest)"
    define chunks1 where "chunks1 = (if st \<and> blank (hd chunks) then tl chunks else chunks)"
    obtain cl n c2 where t: "take_fitting w 0 chunks1 = (cl, n, c2)"
      by (cases "take_fitting w 0 chunks1") auto
    note ts = tf [OF t]
    have c1: "csize chunks1 \<le> csize chunks"
      using ne by (cases chunks) (auto simp: chunks1_def csize_def)
    have pos: "0 < csize chunks" using ne by (cases chunks) (auto simp: csize_def)
    show ?thesis
    proof (cases "c2 \<noteq> [] \<and> w < length (hd c2)")
      case True
      then obtain k ks where c2: "c2 = k # ks" and k: "w < length k" by (cases c2) auto
      obtain a b where h: "handle_long_word w n k = (a, b)"
        by (cases "handle_long_word w n k") auto
      have rest: "rest = b # ks"
        using nx t True c2 h by (auto simp: next_line_def chunks1_def Let_def)
      have nw: "n \<le> w" using ts by simp
      from hl [OF h nw k] show ?thesis
      proof
        assume "length b < length k"
        then have "csize rest < csize c2" by (simp add: rest c2 csize_def)
        then show ?thesis using ts c1 by auto
      next
        assume "n = w \<and> b = k"
        then have "rest = c2" "n \<noteq> 0" using w by (auto simp: rest c2)
        then show ?thesis using ts c1 by auto
      qed
    next
      case False
      then have rest: "rest = c2"
        using nx t by (auto simp: next_line_def chunks1_def Let_def)
      show ?thesis
      proof (cases "c2 = []")
        case True
        then show ?thesis using pos by (simp add: rest csize_def)
      next
        case False
        then have "n \<noteq> 0" using ts \<open>\<not> (c2 \<noteq> [] \<and> w < length (hd c2))\<close> by auto
        then show ?thesis using ts c1 rest by auto
      qed
    qed
  qed
  {
    fix width :: nat and started :: bool and chunks cur_line rest :: "string list"
    assume a: "\<not> (width = 0 \<or> chunks = [])" "(cur_line, rest) = next_line width started chunks"
    then have "csize rest < csize chunks" using nl [of width chunks started cur_line rest] by simp
    then have "((width, True, rest), (width, started, chunks))
       \<in> measure (\<lambda>(w, st, chunks). length (concat chunks) + length chunks)"
      and "((width, started, rest), (width, started, chunks))
       \<in> measure (\<lambda>(w, st, chunks). length (concat chunks) + length chunks)"
      by (simp_all add: csize_def)
  } note step = this
  show "\<And>width started chunks x y.
       \<lbrakk>\<not> (width = 0 \<or> chunks = []); (x, y) = next_line width started chunks; x \<noteq> []\<rbrakk>
       \<Longrightarrow> ((width, True, y), width, started, chunks)
           \<in> measure (\<lambda>(w, st, chunks). length (concat chunks) + length chunks)"
    using step(1) by blast
  show "\<And>width started chunks x y.
       \<lbrakk>\<not> (width = 0 \<or> chunks = []); (x, y) = next_line width started chunks; \<not> x \<noteq> []\<rbrakk>
       \<Longrightarrow> ((width, started, y), width, started, chunks)
           \<in> measure (\<lambda>(w, st, chunks). length (concat chunks) + length chunks)"
    using step(2) by blast
qed

declare wrap_chunks.simps [simp del]

text \<open>\<^verbatim>\<open>TextWrapper(width=width).wrap(text)\<close> for a positive width.\<close>

definition wrap_text :: "nat \<Rightarrow> string \<Rightarrow> string list" where
  "wrap_text width text = wrap_chunks width False (split_chunks [] (munge_whitespace text))"

text \<open>
  \<^verbatim>\<open>textwrap.wrap(text, width=width)\<close>. A width that is not positive raises
  \<^verbatim>\<open>ValueError\<close>.
\<close>

definition textwrap_wrap :: "string \<Rightarrow> int \<Rightarrow> error + string list" where
  "textwrap_wrap text width =
     (if width \<le> 0 then Inl (ValueError (''invalid width '' @ str_int width @ '' (must be > 0)''))
      else Inr (wrap_text (nat width) text))"

section \<open>Numbers\<close>

text \<open>\<^verbatim>\<open>int(x)\<close> on a float truncates towards zero.\<close>

definition py_int :: "rat \<Rightarrow> int" where
  "py_int x = (if 0 \<le> x then \<lfloor>x\<rfloor> else \<lceil>x\<rceil>)"

text \<open>Rounding to the nearest integer, ties to the even one.\<close>

definition round_half_even :: "rat \<Rightarrow> int" where
  "round_half_even x =
     (let f = \<lfloor>x\<rfloor>; r = x - of_int f
      in if r < 1 / 2 then f else if 1 / 2 < r then f + 1 else if even f then f else f + 1)"

text \<open>\<^verbatim>\<open>round(x, 2)\<close>.\<close>

definition py_round2 :: "rat \<Rightarrow> rat" where
  "py_round2 x = of_int (round_half_even (x * 100)) / 100"

text \<open>The digits of a natural number in groups of three, separated by commas.\<close>

fun comma_nat :: "nat \<Rightarrow> string" where
  "comma_nat n =
     (if n < 1000 then str_nat n
      else comma_nat (n div 1000) @ '','' @ zero_pad 3 (str_nat (n mod 1000)))"

declare comma_nat.simps [simp del]

text \<open>
  The format specs \<^verbatim>\<open>.4f\<close> (\<open>fmt_f False 4\<close>) and \<^verbatim>\<open>,.2f\<close> (\<open>fmt_f True 2\<close>): the
  magnitude is rounded to the precision, a negative number keeps its sign.
\<close>

definition fmt_f :: "bool \<Rightarrow> nat \<Rightarrow> rat \<Rightarrow> string" where
  "fmt_f commas p x =
     (let n = nat (round_half_even (\<bar>x\<bar> * 10 ^ p));
          ip = n div 10 ^ p;
          fp = n mod 10 ^ p
      in (if x < 0 then ''-'' else [])
         @ (if commas then comma_nat ip else str_nat ip)
         @ ''.'' @ zero_pad p (str_nat fp))"

section \<open>The configuration document\<close>

text \<open>
  \<^verbatim>\<open>config.json\<close> with the fields the script reads. A field that may be absent from
  the document is an option; a dictionary of strings is a map. Every field that is
  present has the type of the data model (a string, a number, a list of services).
\<close>

record service =
  description :: "string option"
  unit_name :: "string option"
  quantity :: "int option"
  amount_usd :: "rat option"

record invoice_info =
  due_days :: "int option"
  last_invoice_number :: "int option"

record config =
  company :: "(string \<rightharpoonup> string) option"
  receiver :: "(string \<rightharpoonup> string) option"
  services :: "service list option"
  invoice :: "invoice_info option"
  amount_excl_tax :: "rat option"
  vat :: "rat option"
  amount_incl_tax :: "rat option"
  vat_note :: "string option"
  payment_methods :: "string option"
  bank_details :: "(string \<rightharpoonup> string) option"
  output_name :: "string option"
  exchange_rate :: "rat option option"
  exchange_rate_note :: "string option"

text \<open>\<^verbatim>\<open>d.get(key, default)\<close> and \<^verbatim>\<open>d[key]\<close>.\<close>

definition get_default :: "'a option \<Rightarrow> 'a \<Rightarrow> 'a" where
  "get_default v d = (case v of None \<Rightarrow> d | Some x \<Rightarrow> x)"

definition getitem :: "'a option \<Rightarrow> string \<Rightarrow> error + 'a" where
  "getitem v key = (case v of None \<Rightarrow> Inl (KeyError key) | Some x \<Rightarrow> Inr x)"

text \<open>Sequencing of two steps, the first of which may raise.\<close>

definition and_then :: "error + 'a \<Rightarrow> ('a \<Rightarrow> error + 'b) \<Rightarrow> error + 'b" where
  "and_then m f = (case m of Inl e \<Rightarrow> Inl e | Inr v \<Rightarrow> f v)"

section \<open>Exchange rate\<close>

text \<open>
  What the request and the parsing of the feed give, inside the \<^verbatim>\<open>try\<close> block: an
  exception, or the list of the \<^verbatim>\<open>Cube\<close> elements with a \<^verbatim>\<open>time\<close> attribute, each with the
  rate of its USD child if it has one.
\<close>

type_synonym feed = "error + (string \<times> rat option) list"

text \<open>The loop that fills \<^verbatim>\<open>date_to_rate\<close>; a dictionary keeps the order of insertion.\<close>

fun date_to_rate :: "(string \<times> rat option) list \<Rightarrow> (string \<times> rat) list \<Rightarrow> (string \<times> rat) list" where
  "date_to_rate [] d = d"
| "date_to_rate ((cube_date, usd) # cubes) d =
     (case usd of
        None \<Rightarrow> date_to_rate cubes d
      | Some r \<Rightarrow> date_to_rate cubes (AList.update cube_date r d))"

definition note_prefix :: "rat \<Rightarrow> string \<Rightarrow> string" where
  "note_prefix rate d =
     ''Applied exchange rate: EUR/USD ('' @ fmt_f False 4 rate @ ''), according to the ECB for '' @ d"

text \<open>The body of the \<^verbatim>\<open>try\<close> block after the dictionary is built.\<close>

definition select_rate :: "(string \<times> rat) list \<Rightarrow> string \<Rightarrow> error + (rat \<times> string)" where
  "select_rate d invoice_date_str =
     (case map_of d invoice_date_str of
        Some rate \<Rightarrow> Inr (rate, note_prefix rate invoice_date_str)
      | None \<Rightarrow>
          (let available_dates = sort (filter (\<lambda>k. k \<le> invoice_date_str) (map fst d))
           in if available_dates \<noteq> []
              then (let fallback_date = last available_dates
                    in and_then (getitem (map_of d fallback_date) fallback_date) (\<lambda>rate.
                         Inr (rate, note_prefix rate fallback_date
                              @ '' (latest available before invoice date '' @ invoice_date_str @ '')'')))
              else (if map fst d = [] then Inl (IndexError ''list index out of range'')
                    else (let latest_date = last (sort (map fst d))
                          in and_then (getitem (map_of d latest_date) latest_date) (\<lambda>rate.
                               Inr (rate, note_prefix rate latest_date
                                    @ '' (no rate available for or before invoice date ''
                                    @ invoice_date_str @ '')''))))))"

definition fetch_and_update_exchange_rate :: "config \<Rightarrow> string \<Rightarrow> feed \<Rightarrow> error + config" where
  "fetch_and_update_exchange_rate cfg emission_date response =
     (case strptime emission_date of
        Inl e \<Rightarrow> Inl e
      | Inr invoice_date \<Rightarrow>
          (case and_then response (\<lambda>cubes. select_rate (date_to_rate cubes []) (strftime_iso invoice_date)) of
             Inr (rate, note) \<Rightarrow>
               Inr (cfg\<lparr>exchange_rate_note := Some note, exchange_rate := Some (Some rate)\<rparr>)
           | Inl e \<Rightarrow>
               Inr (cfg\<lparr>exchange_rate_note := Some (''Could not fetch exchange rate from ECB. '' @ str_error e),
                        exchange_rate := Some None\<rparr>)))"

section \<open>The document\<close>

text \<open>
  A PDF document is the list of the drawing operations of the canvas, in order:
  rectangles, rounded rectangles, strings, tables and page breaks. Calls that only set
  the font, a colour or the line width draw nothing and are left out. Lengths are in
  points.
\<close>

record table =
  data :: "string list list"
  colWidths :: "rat list"
  rowHeights :: "rat list"

datatype op =
    Rect rat rat rat rat
  | RoundRect rat rat rat rat rat
  | DrawString rat rat string
  | DrawTable rat rat table
  | ShowPage

type_synonym pdf = "op list"

datatype lang = En | Fr

text \<open>The page size A4 of reportlab, \<^verbatim>\<open>(210*mm, 297*mm)\<close> with \<^verbatim>\<open>mm = 72.0 / 2.54 * 0.1\<close>.\<close>

definition mm :: rat where
  "mm = 72 / (254 / 100) * (1 / 10)"

definition width :: rat where
  "width = 210 * mm"

definition height :: rat where
  "height = 297 * mm"

definition margin :: rat where
  "margin = 30"

text \<open>The border frame of a page.\<close>

definition border :: op where
  "border = Rect (margin / 2) (margin / 2) (width - margin) (height - margin)"

definition draw_box :: "rat \<Rightarrow> rat \<Rightarrow> rat \<Rightarrow> rat \<Rightarrow> string \<Rightarrow> op list" where
  "draw_box x y w h label =
     RoundRect x y w h 6 # (if label \<noteq> [] then [DrawString (x + 8) (y + h - 18) label] else [])"

subsection \<open>Wrapped text\<close>

text \<open>\<^verbatim>\<open>int(max_width / (font_size * 0.55))\<close>.\<close>

definition wrap_width :: "rat \<Rightarrow> rat \<Rightarrow> error + int" where
  "wrap_width max_width font_size =
     (if font_size * (55 / 100) = 0 then Inl ZeroDivisionError
      else Inr (py_int (max_width / (font_size * (55 / 100)))))"

text \<open>\<^verbatim>\<open>text.split('\n')\<close>.\<close>

fun split_nl :: "string \<Rightarrow> string list" where
  "split_nl [] = [[]]"
| "split_nl (c # cs) =
     (if c = CHR 0x0A then [] # split_nl cs
      else (case split_nl cs of
              l # ls \<Rightarrow> (c # l) # ls
            | [] \<Rightarrow> [[c]]))"

text \<open>\<^verbatim>\<open>'\n'.join(lines)\<close> and \<^verbatim>\<open>s.count('\n')\<close>.\<close>

fun join_nl :: "string list \<Rightarrow> string" where
  "join_nl [] = []"
| "join_nl [l] = l"
| "join_nl (l # ls) = l @ CHR 0x0A # join_nl ls"

definition count_nl :: "string \<Rightarrow> nat" where
  "count_nl s = length (filter (\<lambda>c. c = CHR 0x0A) s)"

text \<open>The first loop of \<^verbatim>\<open>draw_wrapped_text\<close>: the wrapped lines of every line of the text.\<close>

fun wrap_lines :: "rat \<Rightarrow> rat \<Rightarrow> string list \<Rightarrow> error + string list" where
  "wrap_lines max_width font_size [] = Inr []"
| "wrap_lines max_width font_size (line # ls) =
     and_then (wrap_width max_width font_size) (\<lambda>w.
     and_then (textwrap_wrap line w) (\<lambda>wrapped.
     and_then (wrap_lines max_width font_size ls) (\<lambda>others. Inr (wrapped @ others))))"

text \<open>
  \<^verbatim>\<open>draw_wrapped_text(c, text, x, y, max_width, font_name, font_size, line_gap)\<close>: the
  strings drawn, the new vertical position and the number of lines.
\<close>

definition draw_wrapped_text ::
  "string \<Rightarrow> rat \<Rightarrow> rat \<Rightarrow> rat \<Rightarrow> rat \<Rightarrow> rat \<Rightarrow> error + (op list \<times> rat \<times> nat)" where
  "draw_wrapped_text text x y max_width font_size line_gap =
     and_then (wrap_lines max_width font_size (split_nl text)) (\<lambda>lines.
       Inr (map (\<lambda>(i, l). DrawString x (y - of_nat i * line_gap) l) (enumerate 0 lines),
            y - of_nat (length lines) * line_gap,
            length lines))"

text \<open>\<^verbatim>\<open>wrap_table_cell(text, col_width, font_size)\<close>.\<close>

definition wrap_table_cell :: "string \<Rightarrow> rat \<Rightarrow> rat \<Rightarrow> error + string" where
  "wrap_table_cell text col_width font_size =
     and_then (wrap_width col_width font_size) (\<lambda>w.
     and_then (textwrap_wrap text w) (\<lambda>lines. Inr (join_nl lines)))"

text \<open>
  A run of calls \<^verbatim>\<open>y, _ = draw_wrapped_text(c, text, x, y, max_width, font, size, gap)\<close>,
  one for each text with its font size, each starting where the one before ended.
\<close>

fun draw_texts :: "(string \<times> rat) list \<Rightarrow> rat \<Rightarrow> rat \<Rightarrow> rat \<Rightarrow> rat \<Rightarrow> error + (op list \<times> rat)" where
  "draw_texts [] x y max_width line_gap = Inr ([], y)"
| "draw_texts ((text, font_size) # texts) x y max_width line_gap =
     and_then (draw_wrapped_text text x y max_width font_size line_gap) (\<lambda>(ops, y', n).
     and_then (draw_texts texts x y' max_width line_gap) (\<lambda>(ops', y'').
       Inr (ops @ ops', y'')))"

subsection \<open>Labels\<close>

text \<open>
  The keys of the dictionary \<^verbatim>\<open>labels\<close>. The strings of the script are spelled out with
  their code points where they are not ASCII. The en dash (U+2013) of the two VAT notes
  is the only code point of the script above 255; it is written \<open>CHR 0x96\<close>, which is in
  the same character classes (no whitespace, no word character, no hyphen).
\<close>

datatype label_key =
    L_invoice | L_emitted_at | L_due_date | L_company | L_bill_to | L_payment_term
  | L_payment_methods | L_amount_excl_tax | L_vat | L_amount_incl_tax | L_bank_details
  | L_description | L_unit | L_quantity | L_unit_price | L_vat_col | L_total
  | L_total_incl_tax | L_client | L_vat_note | L_exchange_rate_note | L_account_holder
  | L_routing_number | L_account_number | L_account_type | L_bank | L_bank_address
  | L_account_address

text \<open>\<^verbatim>\<open>s.startswith(p)\<close>, giving the rest of the string.\<close>

fun strip_prefix :: "string \<Rightarrow> string \<Rightarrow> string option" where
  "strip_prefix [] s = Some s"
| "strip_prefix (p # ps) [] = None"
| "strip_prefix (p # ps) (c # cs) = (if p = c then strip_prefix ps cs else None)"

text \<open>The pattern \<^verbatim>\<open>\d{4}-\d{2}-\d{2}\<close> at the start of a string.\<close>

fun match_iso_date :: "string \<Rightarrow> string option" where
  "match_iso_date (a # b # c # d # h1 # e # f # h2 # g # h # rest) =
     (if is_digit a \<and> is_digit b \<and> is_digit c \<and> is_digit d \<and> h1 = CHR ''-''
         \<and> is_digit e \<and> is_digit f \<and> h2 = CHR ''-'' \<and> is_digit g \<and> is_digit h
      then Some [a, b, c, d, h1, e, f, h2, g, h] else None)"
| "match_iso_date _ = None"

text \<open>
  \<^verbatim>\<open>re.match\<close> of the note with
  \<^verbatim>\<open>Applied exchange rate: EUR/USD \(([^)]+)\), according to the ECB for (\d{4}-\d{2}-\d{2})\<close>:
  the two groups. The first group is the longest run of characters other than the
  closing parenthesis.
\<close>

definition match_note :: "string \<Rightarrow> (string \<times> string) option" where
  "match_note note =
     (case strip_prefix ''Applied exchange rate: EUR/USD ('' note of
        None \<Rightarrow> None
      | Some r1 \<Rightarrow>
          (let rate = takeWhile (\<lambda>c. c \<noteq> CHR '')'') r1
           in if rate = [] then None
              else (case strip_prefix ''), according to the ECB for '' (drop (length rate) r1) of
                      None \<Rightarrow> None
                    | Some r2 \<Rightarrow>
                        (case match_iso_date r2 of
                           None \<Rightarrow> None
                         | Some date_str \<Rightarrow> Some (rate, date_str)))))"

text \<open>The translation of the exchange rate note for the French document.\<close>

definition french_note :: "string \<Rightarrow> string" where
  "french_note note =
     (case match_note note of
        Some (rate, date_str) \<Rightarrow>
          ''Taux de change appliqu'' @ [CHR 0xE9] @ '' : EUR/USD ('' @ rate @ ''), selon la BCE pour le ''
            @ date_str
      | None \<Rightarrow> note)"

primrec labels_en :: "config \<Rightarrow> label_key \<Rightarrow> string" where
  "labels_en cfg L_invoice = ''Invoice''"
| "labels_en cfg L_emitted_at = ''Emitted at''"
| "labels_en cfg L_due_date = ''Due date''"
| "labels_en cfg L_company = ''Company''"
| "labels_en cfg L_bill_to = ''Bill to''"
| "labels_en cfg L_payment_term = ''Payment term:''"
| "labels_en cfg L_payment_methods = ''Payment method:''"
| "labels_en cfg L_amount_excl_tax = ''Amount excl. tax:''"
| "labels_en cfg L_vat = ''VAT:''"
| "labels_en cfg L_amount_incl_tax = ''Amount incl. tax:''"
| "labels_en cfg L_bank_details = ''Bank Account Details''"
| "labels_en cfg L_description = ''Description''"
| "labels_en cfg L_unit = ''Unit''"
| "labels_en cfg L_quantity = ''Quantity''"
| "labels_en cfg L_unit_price = ''Unit price''"
| "labels_en cfg L_vat_col = ''VAT''"
| "labels_en cfg L_total = ''Total''"
| "labels_en cfg L_total_incl_tax = ''Total incl. tax''"
| "labels_en cfg L_client = ''Client''"
| "labels_en cfg L_vat_note = ''VAT not applicable '' @ [CHR 0x96] @ '' art. 259-1 of the French Tax Code.''"
| "labels_en cfg L_exchange_rate_note = get_default (exchange_rate_note cfg) []"
| "labels_en cfg L_account_holder = ''Account holder''"
| "labels_en cfg L_routing_number = ''Routing number (ACH)''"
| "labels_en cfg L_account_number = ''Account number''"
| "labels_en cfg L_account_type = ''Account type''"
| "labels_en cfg L_bank = ''Bank''"
| "labels_en cfg L_bank_address = ''Bank address''"
| "labels_en cfg L_account_address = ''Account address''"

primrec labels_fr :: "config \<Rightarrow> label_key \<Rightarrow> string" where
  "labels_fr cfg L_invoice = ''Facture''"
| "labels_fr cfg L_emitted_at = [CHR 0xC9] @ ''mis le''"
| "labels_fr cfg L_due_date = ''Date d'' @ [CHR 0x27, CHR 0xE9] @ ''ch'' @ [CHR 0xE9] @ ''ance''"
| "labels_fr cfg L_company = ''Soci'' @ [CHR 0xE9] @ ''t'' @ [CHR 0xE9]"
| "labels_fr cfg L_bill_to = ''Client''"
| "labels_fr cfg L_payment_term = ''D'' @ [CHR 0xE9] @ ''lai de paiement :''"
| "labels_fr cfg L_payment_methods = ''Modes de paiement :''"
| "labels_fr cfg L_amount_excl_tax = ''Montant HT :''"
| "labels_fr cfg L_vat = ''TVA :''"
| "labels_fr cfg L_amount_incl_tax = ''Montant TTC :''"
| "labels_fr cfg L_bank_details = ''Coordonn'' @ [CHR 0xE9] @ ''es bancaires''"
| "labels_fr cfg L_description = ''Description''"
| "labels_fr cfg L_unit = ''Unit'' @ [CHR 0xE9]"
| "labels_fr cfg L_quantity = ''Quantit'' @ [CHR 0xE9]"
| "labels_fr cfg L_unit_price = ''Prix unitaire''"
| "labels_fr cfg L_vat_col = ''TVA''"
| "labels_fr cfg L_total = ''Total''"
| "labels_fr cfg L_total_incl_tax = ''Total TTC''"
| "labels_fr cfg L_client = ''Client''"
| "labels_fr cfg L_vat_note =
     ''TVA non applicable '' @ [CHR 0x96] @ '' art. 259-1 du Code g'' @ [CHR 0xE9]
       @ ''n'' @ [CHR 0xE9] @ ''ral des imp'' @ [CHR 0xF4] @ ''ts.''"
| "labels_fr cfg L_exchange_rate_note = french_note (get_default (exchange_rate_note cfg) [])"
| "labels_fr cfg L_account_holder = ''Titulaire du compte''"
| "labels_fr cfg L_routing_number = ''Code de routage (ACH)''"
| "labels_fr cfg L_account_number = ''Num'' @ [CHR 0xE9] @ ''ro de compte''"
| "labels_fr cfg L_account_type = ''Type de compte''"
| "labels_fr cfg L_bank = ''Banque''"
| "labels_fr cfg L_bank_address = ''Adresse de la banque''"
| "labels_fr cfg L_account_address = ''Adresse du compte''"

text \<open>The dictionary \<^verbatim>\<open>labels\<close> of a language, after line 185 of the script.\<close>

primrec labels :: "config \<Rightarrow> lang \<Rightarrow> label_key \<Rightarrow> string" where
  "labels cfg En = labels_en cfg"
| "labels cfg Fr = labels_fr cfg"

subsection \<open>Due date\<close>

definition next_day :: "date \<Rightarrow> date" where
  "next_day d =
     (if day d < days_in_month (year d) (month d) then d\<lparr>day := day d + 1\<rparr>
      else if month d < 12 then d\<lparr>month := month d + 1, day := 1\<rparr>
      else \<lparr>year = year d + 1, month = 1, day = 1\<rparr>)"

definition prev_day :: "date \<Rightarrow> date" where
  "prev_day d =
     (if 1 < day d then d\<lparr>day := day d - 1\<rparr>
      else if 1 < month d then d\<lparr>month := month d - 1, day := days_in_month (year d) (month d - 1)\<rparr>
      else \<lparr>year = year d - 1, month = 12, day = 31\<rparr>)"

text \<open>
  \<^verbatim>\<open>dt + timedelta(days=n)\<close>: the date \<open>n\<close> days later, or \<^verbatim>\<open>OverflowError\<close> when the
  result is outside the years 1 to 9999.
\<close>

definition add_days :: "date \<Rightarrow> int \<Rightarrow> error + date" where
  "add_days d n =
     (let r = (if 0 \<le> n then (next_day ^^ nat n) d else (prev_day ^^ nat (- n)) d)
      in if 1 \<le> year r \<and> year r \<le> 9999 then Inr r else Inl OverflowError)"

text \<open>Lines 188 to 191 of the script: the due date as a string.\<close>

definition due_date_str :: "config \<Rightarrow> string \<Rightarrow> error + string" where
  "due_date_str cfg emission_date =
     (let due_days = get_default (due_days (get_default (invoice cfg) \<lparr>due_days = None, last_invoice_number = None\<rparr>)) 0
      in and_then (strptime emission_date) (\<lambda>emission_dt.
         and_then (add_days emission_dt due_days) (\<lambda>due_dt.
           Inr (strftime_slash due_dt))))"

subsection \<open>Header\<close>

text \<open>
  Lines 193 to 216 of the script: the border, the title and the block with the invoice
  identifier and the two dates. The result is the operations and the vertical position
  below the block.
\<close>

definition header_section :: "config \<Rightarrow> lang \<Rightarrow> string \<Rightarrow> string \<Rightarrow> string \<Rightarrow> op list \<times> rat" where
  "header_section cfg lang invoice_id emission_date due =
     (let y = height - margin - 20;
          y' = y - 32;
          block_height = 60
      in ([border,
           DrawString margin y (labels cfg lang L_invoice),
           RoundRect margin (y' - block_height + 8) (width - 2 * margin) block_height 6,
           DrawString (margin + 12) (y' - 12) invoice_id,
           DrawString (margin + 12) (y' - 30) (labels cfg lang L_emitted_at @ '': '' @ emission_date),
           DrawString (margin + 12) (y' - 48) (labels cfg lang L_due_date @ '': '' @ due)],
          y' - (block_height + 10)))"

subsection \<open>Issuer and recipient\<close>

text \<open>
  A run of calls \<^verbatim>\<open>y, _ = draw_wrapped_text(c, prefix + d[key], x, y, ...)\<close> on the
  fields of a dictionary; a key that is absent raises \<^verbatim>\<open>KeyError\<close>.
\<close>

fun draw_fields :: "(string \<rightharpoonup> string) \<Rightarrow> (string \<times> string \<times> rat) list \<Rightarrow> rat \<Rightarrow> rat \<Rightarrow> rat \<Rightarrow> rat
    \<Rightarrow> error + (op list \<times> rat)" where
  "draw_fields d [] x y max_width line_gap = Inr ([], y)"
| "draw_fields d ((key, prefix, font_size) # fs) x y max_width line_gap =
     and_then (getitem (d key) key) (\<lambda>text.
     and_then (draw_wrapped_text (prefix @ text) x y max_width font_size line_gap) (\<lambda>(ops, y', n).
     and_then (draw_fields d fs x y' max_width line_gap) (\<lambda>(ops', y'').
       Inr (ops @ ops', y''))))"

text \<open>The keys that the script reads from the two dictionaries, in order.\<close>

definition company_keys :: "string list" where
  "company_keys = [''legal_name'', ''business_name'', ''contact_name'', ''email'', ''phone'',
                   ''address'', ''siret'']"

definition receiver_keys :: "string list" where
  "receiver_keys = [''name'', ''address'']"

text \<open>Lines 218 to 243 of the script.\<close>

definition parties_section :: "config \<Rightarrow> lang \<Rightarrow> rat \<Rightarrow> error + (op list \<times> rat)" where
  "parties_section cfg lang y =
     (let box_height = 190;
          box_width = (width - 2 * margin - 40) / 2;
          line_gap = 18;
          text_x_pad = 18;
          text_y_start = y - 22
      in and_then (getitem (company cfg) ''company'') (\<lambda>comp.
         and_then (draw_fields comp
                     [(''legal_name'', [], 11), (''business_name'', [], 10),
                      (''contact_name'', [], 10), (''email'', [], 10), (''phone'', [], 10),
                      (''address'', [], 10), (''siret'', ''SIRET: '', 10)]
                     (margin + text_x_pad) (text_y_start - line_gap)
                     (box_width - 2 * text_x_pad) line_gap) (\<lambda>(ops_sender, y_sender).
         and_then (getitem (receiver cfg) ''receiver'') (\<lambda>recv.
         and_then (draw_fields recv [(''name'', [], 11), (''address'', [], 10)]
                     (margin + box_width + 40 + text_x_pad) (text_y_start - line_gap)
                     (box_width - 2 * text_x_pad) line_gap) (\<lambda>(ops_receiver, y_receiver).
           Inr (draw_box margin (y - box_height) box_width box_height (labels cfg lang L_company)
                  @ ops_sender
                  @ draw_box (margin + box_width + 40) (y - box_height) box_width box_height
                      (labels cfg lang L_bill_to)
                  @ ops_receiver,
                y - (box_height + 30)))))))"

subsection \<open>The table of services\<close>

definition col_widths :: "rat list" where
  "col_widths = [18, 120, 40, 40, 60, 45, 60, 70]"

definition table_font_size :: rat where
  "table_font_size = 8"

text \<open>The body of the loop over the services: one row of the table.\<close>

definition service_row :: "nat \<Rightarrow> service \<Rightarrow> error + string list" where
  "service_row i s =
     and_then (wrap_table_cell (get_default (description s) []) (col_widths ! 1) table_font_size)
       (\<lambda>desc_col.
          (let unit = get_default (unit_name s) ''Month'';
               qty = get_default (quantity s) 1;
               unit_price = get_default (amount_usd s) 0;
               vat_amount = unit_price * of_int qty * 0;
               total = unit_price * of_int qty;
               total_incl_tax = total + vat_amount
           in Inr [str_nat i, desc_col, unit, str_int qty,
                   ''$'' @ fmt_f True 2 unit_price,
                   ''$'' @ fmt_f True 2 vat_amount,
                   ''$'' @ fmt_f True 2 total,
                   ''$'' @ fmt_f True 2 total_incl_tax]))"

fun service_rows :: "nat \<Rightarrow> service list \<Rightarrow> error + string list list" where
  "service_rows i [] = Inr []"
| "service_rows i (s # ss) =
     and_then (service_row i s) (\<lambda>row.
     and_then (service_rows (i + 1) ss) (\<lambda>rows. Inr (row # rows)))"

text \<open>The height of a row, from the number of lines of its description.\<close>

definition row_height :: "string list \<Rightarrow> rat" where
  "row_height row = of_nat (count_nl (row ! 1) + 1) * (table_font_size + 3) + 10"

text \<open>
  \<^verbatim>\<open>Table.split(availWidth, availHeight)\<close> of reportlab, for a table with given row
  heights and without repeated rows or spans: the table is cut once, after the last row
  up to which the heights add up to at most the available height. The result is empty
  when not even the first row fits, the table itself when every row fits, and otherwise
  two tables: the rows that fit, and all the other rows. The table of the script is
  narrower than the page, so the available width plays no role.
\<close>

fun first_split_row :: "rat \<Rightarrow> rat \<Rightarrow> rat list \<Rightarrow> nat" where
  "first_split_row availHeight h [] = 0"
| "first_split_row availHeight h (rh # rhs) =
     (if h + rh > availHeight then 0 else 1 + first_split_row availHeight (h + rh) rhs)"

definition table_split :: "table \<Rightarrow> rat \<Rightarrow> rat \<Rightarrow> table list" where
  "table_split t availWidth availHeight =
     (let n = first_split_row availHeight 0 (rowHeights t)
      in if n = 0 then []
         else if n = length (rowHeights t) then [t]
         else [t\<lparr>data := take n (data t), rowHeights := take n (rowHeights t)\<rparr>,
               t\<lparr>data := drop n (data t), rowHeights := drop n (rowHeights t)\<rparr>])"

text \<open>\<^verbatim>\<open>part._height\<close> after \<^verbatim>\<open>part.wrapOn\<close>.\<close>

definition table_height :: "table \<Rightarrow> rat" where
  "table_height t = sum_list (rowHeights t)"

text \<open>
  The loop over \<^verbatim>\<open>table_parts\<close>: every part but the first starts a new page, on which
  the border is drawn again and the part is placed at the top margin.
\<close>

fun draw_parts :: "nat \<Rightarrow> table list \<Rightarrow> rat \<Rightarrow> op list \<times> rat" where
  "draw_parts idx [] table_y = ([], table_y)"
| "draw_parts idx (part # parts) table_y =
     (let (page, ty) = (if 0 < idx then ([ShowPage, border], height - margin) else ([], table_y));
          (ops, ty') = draw_parts (idx + 1) parts (ty - table_height part)
      in (page @ [DrawTable margin (ty - table_height part) part] @ ops, ty'))"

text \<open>Lines 245 to 310 of the script.\<close>

definition table_section :: "config \<Rightarrow> lang \<Rightarrow> rat \<Rightarrow> error + (op list \<times> rat)" where
  "table_section cfg lang y =
     and_then (service_rows 1 (get_default (services cfg) [])) (\<lambda>rows.
       (let header = [''#'', labels cfg lang L_description, labels cfg lang L_unit,
                      labels cfg lang L_quantity, labels cfg lang L_unit_price,
                      labels cfg lang L_vat_col, labels cfg lang L_total,
                      labels cfg lang L_total_incl_tax];
            row_heights = 20 # map row_height rows;
            t = \<lparr>data = header # rows, colWidths = col_widths, rowHeights = row_heights\<rparr>;
            available_height = y - (margin + 200);
            table_parts = table_split t (width - 2 * margin) available_height;
            (ops, table_y) = draw_parts 0 table_parts y
        in Inr (ops, table_y - 32)))"

subsection \<open>Payment and tax information\<close>

text \<open>\<^verbatim>\<open>textwrap.wrap(note, width=int((width - 2*margin - 36) / (10 * 0.55)))\<close>.\<close>

definition note_wrap :: "string \<Rightarrow> error + string list" where
  "note_wrap note = and_then (wrap_width (width - 2 * margin - 36) 10) (textwrap_wrap note)"

text \<open>\<^verbatim>\<open>s.strip()\<close> and \<^verbatim>\<open>s.lower()\<close> on code points below 256.\<close>

definition py_strip :: "string \<Rightarrow> string" where
  "py_strip s = rev (dropWhile py_isspace (rev (dropWhile py_isspace s)))"

definition py_lower_char :: "char \<Rightarrow> char" where
  "py_lower_char c =
     (let n = (of_char c :: nat)
      in if (65 \<le> n \<and> n \<le> 90) \<or> (192 \<le> n \<and> n \<le> 222 \<and> n \<noteq> 215) then char_of (n + 32) else c)"

definition py_lower :: "string \<Rightarrow> string" where
  "py_lower s = map py_lower_char s"

text \<open>The two loops that draw the lines of the notes, 14 points apart.\<close>

definition draw_note_lines :: "string list \<Rightarrow> rat \<Rightarrow> op list" where
  "draw_note_lines lines text_y =
     map (\<lambda>(i, line). DrawString (margin + 18) (text_y - of_nat i * 14) line) (enumerate 0 lines)"

text \<open>Lines 312 to 386 of the script.\<close>

definition payment_section :: "config \<Rightarrow> lang \<Rightarrow> rat \<Rightarrow> error + (op list \<times> rat)" where
  "payment_section cfg lang y =
     and_then (note_wrap (get_default (vat_note cfg) [])) (\<lambda>vat_note_lines.
     and_then (note_wrap (get_default (exchange_rate_note cfg) [])) (\<lambda>exch_note_lines.
       (let n_lines = 5 + length vat_note_lines + length exch_note_lines;
            section_height = of_nat n_lines * 16 + 24;
            new_page = (y - section_height + 20 < margin + 100);
            y1 = (if new_page then height - margin - 32 else y);
            section_y = y1 - section_height + 20;
            text_y = section_y + section_height - 16;
            days = get_default (due_days (get_default (invoice cfg)
                      \<lparr>due_days = None, last_invoice_number = None\<rparr>)) 0;
            payment_term_value =
              (if lang = Fr then '' '' @ str_int days @ '' jours'' else '' '' @ str_int days @ '' days'');
            pm = get_default (payment_methods cfg) [];
            payment_methods_value =
              (if lang = Fr \<and> py_lower (py_strip pm) = ''transfer'' then '' Virement'' else '' '' @ pm);
            money = (\<lambda>v. (if lang = Fr then '' '' else []) @ ''$'' @ fmt_f True 2 (get_default v 0));
            vat_note_text =
              (if lang = Fr then labels cfg lang L_vat_note else get_default (vat_note cfg) []);
            exch_note =
              (if lang = Fr then labels cfg lang L_exchange_rate_note
               else get_default (exchange_rate_note cfg) [])
        in and_then (note_wrap vat_note_text) (\<lambda>vat_lines.
           and_then (note_wrap exch_note) (\<lambda>exch_lines.
             Inr ((if new_page then [ShowPage, border] else [])
                  @ [RoundRect margin section_y (width - 2 * margin) section_height 8,
                     DrawString (margin + 18) text_y (labels cfg lang L_payment_term),
                     DrawString (margin + 120) text_y payment_term_value,
                     DrawString (margin + 18) (text_y - 16) (labels cfg lang L_payment_methods),
                     DrawString (margin + 120) (text_y - 16) payment_methods_value,
                     DrawString (margin + 18) (text_y - 32) (labels cfg lang L_amount_excl_tax),
                     DrawString (margin + 120) (text_y - 32) (money (amount_excl_tax cfg)),
                     DrawString (margin + 18) (text_y - 48) (labels cfg lang L_vat),
                     DrawString (margin + 120) (text_y - 48) (money (vat cfg)),
                     DrawString (margin + 18) (text_y - 64) (labels cfg lang L_amount_incl_tax),
                     DrawString (margin + 120) (text_y - 64) (money (amount_incl_tax cfg))]
                  @ draw_note_lines (vat_lines @ exch_lines) (text_y - 84),
                  section_y - 32))))))"

subsection \<open>Bank account details\<close>

text \<open>Lines 388 to 410 of the script; a field that is absent is the empty string.\<close>

definition bank_texts :: "config \<Rightarrow> lang \<Rightarrow> (string \<times> rat) list" where
  "bank_texts cfg lang =
     (let bank = get_default (bank_details cfg) Map.empty;
          field = (\<lambda>l key. (labels cfg lang l @ '': '' @ get_default (bank key) [], 9))
      in [field L_account_holder ''account_holder'',
          field L_routing_number ''routing_number'',
          field L_account_number ''account_number'',
          field L_account_type ''account_type'',
          field L_bank ''bank'',
          field L_bank_address ''bank_address''])"

definition bank_section :: "config \<Rightarrow> lang \<Rightarrow> rat \<Rightarrow> error + op list" where
  "bank_section cfg lang y =
     (let new_page = (y < margin + 100);
          y1 = (if new_page then height - margin - 32 else y)
      in and_then (draw_texts (bank_texts cfg lang) margin (y1 - 14) (width - 2 * margin) 11)
           (\<lambda>(ops, y').
              Inr ((if new_page then [ShowPage, border] else [])
                   @ [DrawString margin y1 (labels cfg lang L_bank_details)] @ ops)))"

subsection \<open>The whole document\<close>

text \<open>
  The drawing of \<^verbatim>\<open>create_invoice_pdf\<close>: every operation up to \<^verbatim>\<open>c.save()\<close>, or the
  exception that ends the function before anything is saved.
\<close>

definition draw_invoice :: "config \<Rightarrow> string \<Rightarrow> string \<Rightarrow> lang \<Rightarrow> error + pdf" where
  "draw_invoice cfg invoice_id emission_date lang =
     and_then (due_date_str cfg emission_date) (\<lambda>due.
       (case header_section cfg lang invoice_id emission_date due of
          (ops1, y1) \<Rightarrow>
            and_then (parties_section cfg lang y1) (\<lambda>(ops2, y2).
            and_then (table_section cfg lang y2) (\<lambda>(ops3, y3).
            and_then (payment_section cfg lang y3) (\<lambda>(ops4, y4).
            and_then (bank_section cfg lang y4) (\<lambda>ops5.
              Inr (ops1 @ ops2 @ ops3 @ ops4 @ ops5)))))))"

text \<open>The number of pages of a document: \<^verbatim>\<open>c.save()\<close> ends the last page.\<close>

definition pages :: "pdf \<Rightarrow> nat" where
  "pages ops = length (filter (\<lambda>x. x = ShowPage) ops) + 1"

section \<open>The run\<close>

text \<open>
  What a run reads and writes outside of its own memory: the configuration file (absent
  or unreadable is \<open>None\<close>), the files written, the directories made and the lines
  printed. The clock and the network are inputs of \<open>main\<close>.
\<close>

record world =
  config_file :: "config option"
  files :: "string \<rightharpoonup> pdf"
  directories :: "string set"
  printed :: "string list"

definition CONFIG_FILE :: string where
  "CONFIG_FILE = ''config.json''"

definition PDF_OUTPUT_DIR :: string where
  "PDF_OUTPUT_DIR = ''invoices''"

definition read_config :: "world \<Rightarrow> error + config" where
  "read_config w = (case config_file w of None \<Rightarrow> Inl ConfigLoadError | Some cfg \<Rightarrow> Inr cfg)"

definition write_config :: "config \<Rightarrow> world \<Rightarrow> world" where
  "write_config cfg w = w\<lparr>config_file := Some cfg\<rparr>"

text \<open>
  \<^verbatim>\<open>create_invoice_pdf(config, invoice_id, output_path, emission_date, lang)\<close>: the file
  is written by \<^verbatim>\<open>c.save()\<close>, the last statement.
\<close>

definition create_invoice_pdf ::
  "config \<Rightarrow> string \<Rightarrow> string \<Rightarrow> string \<Rightarrow> lang \<Rightarrow> world \<Rightarrow> (error + unit) \<times> world" where
  "create_invoice_pdf cfg invoice_id output_path emission_date lang w =
     (case draw_invoice cfg invoice_id emission_date lang of
        Inl e \<Rightarrow> (Inl e, w)
      | Inr ops \<Rightarrow> (Inr (), w\<lparr>files := (files w)(output_path \<mapsto> ops)\<rparr>))"

text \<open>\<^verbatim>\<open>os.path.join(a, b)\<close> on a POSIX system.\<close>

definition path_join :: "string \<Rightarrow> string \<Rightarrow> string" where
  "path_join a b =
     (if b \<noteq> [] \<and> hd b = CHR ''/'' then b
      else if a = [] \<or> last a = CHR ''/'' then a @ b
      else a @ ''/'' @ b)"

text \<open>\<^verbatim>\<open>xs[i]\<close> on a list; a negative index counts from the end.\<close>

definition py_index :: "'a list \<Rightarrow> int \<Rightarrow> error + 'a" where
  "py_index xs i =
     (if 0 \<le> i \<and> i < int (length xs) then Inr (xs ! nat i)
      else if i < 0 \<and> - i \<le> int (length xs) then Inr (xs ! nat (int (length xs) + i))
      else Inl (IndexError ''list index out of range''))"

definition meses_en :: "string list" where
  "meses_en = [[], ''January'', ''February'', ''March'', ''April'', ''May'', ''June'', ''July'',
               ''August'', ''September'', ''October'', ''November'', ''December'']"

text \<open>The sum of the prices of the services, as \<open>main\<close> computes it.\<close>

definition total_services :: "config \<Rightarrow> rat" where
  "total_services cfg =
     sum_list (map (\<lambda>s. get_default (amount_usd s) 0 * of_int (get_default (quantity s) 1))
                 (get_default (services cfg) []))"

definition reconciliation_message :: "config \<Rightarrow> string" where
  "reconciliation_message cfg =
     ''Sum of service prices ($'' @ fmt_f True 2 (total_services cfg)
       @ '') does not match amount_excl_tax ($''
       @ fmt_f True 2 (get_default (amount_excl_tax cfg) 0) @ '') in config.json.''"

text \<open>The names of the two files, from the display name and the month of today.\<close>

definition pdf_paths :: "config \<Rightarrow> date \<Rightarrow> error + (string \<times> string)" where
  "pdf_paths cfg today =
     (let nome = get_default (output_name cfg) ''Nicolas''
      in and_then (py_index meses_en (int (month today) - 1)) (\<lambda>mes_en.
           Inr (path_join PDF_OUTPUT_DIR (nome @ '' - '' @ mes_en @ ''.pdf''),
                path_join PDF_OUTPUT_DIR (nome @ '' - '' @ mes_en @ '' fr.pdf''))))"

text \<open>
  Lines 433 to 436 of \<open>main\<close>: the new sequence number and the invoice identifier.
\<close>

definition next_invoice_id :: "config \<Rightarrow> date \<Rightarrow> error + (int \<times> string)" where
  "next_invoice_id cfg today =
     and_then (getitem (invoice cfg) ''invoice'') (\<lambda>inv.
     and_then (getitem (last_invoice_number inv) ''last_invoice_number'') (\<lambda>last_number.
       (let invoice_number = last_number + 1
        in and_then (generate_invoice_id (strftime_slash today) invoice_number) (\<lambda>invoice_id.
             Inr (invoice_number, invoice_id)))))"

text \<open>
  Lines 432 to 459 of \<open>main\<close>, after the check of the total: the identifier, the
  exchange rate, the two documents, and at the end the new sequence number written to
  the configuration file.
\<close>

definition generate :: "config \<Rightarrow> date \<Rightarrow> feed \<Rightarrow> world \<Rightarrow> (error + unit) \<times> world" where
  "generate cfg today response w =
     (case next_invoice_id cfg today of
        Inl e \<Rightarrow> (Inl e, w)
      | Inr (invoice_number, invoice_id) \<Rightarrow>
          (case fetch_and_update_exchange_rate cfg (strftime_slash today) response of
             Inl e \<Rightarrow> (Inl e, w)
           | Inr cfg1 \<Rightarrow>
               (let w1 = w\<lparr>directories := insert PDF_OUTPUT_DIR (directories w)\<rparr>
                in case pdf_paths cfg1 today of
                     Inl e \<Rightarrow> (Inl e, w1)
                   | Inr (pdf_path, pdf_path_fr) \<Rightarrow>
                       (case create_invoice_pdf cfg1 invoice_id pdf_path (strftime_slash today) En w1 of
                          (Inl e, w2) \<Rightarrow> (Inl e, w2)
                        | (Inr u, w2) \<Rightarrow>
                            (case create_invoice_pdf cfg1 invoice_id pdf_path_fr (strftime_slash today) Fr w2 of
                               (Inl e, w3) \<Rightarrow> (Inl e, w3)
                             | (Inr u', w3) \<Rightarrow>
                                 (let w4 = w3\<lparr>printed := printed w3
                                             @ [''Invoice generated: '' @ pdf_path,
                                                ''Invoice generated (French): '' @ pdf_path_fr]\<rparr>;
                                      inv = get_default (invoice cfg1)
                                              \<lparr>due_days = None, last_invoice_number = None\<rparr>;
                                      cfg2 = cfg1\<lparr>invoice :=
                                               Some (inv\<lparr>last_invoice_number := Some invoice_number\<rparr>)\<rparr>
                                  in (Inr (), write_config cfg2 w4)))))))"

text \<open>
  \<open>main\<close>, given the date of today and what the request of the feed gives. The result is
  the exception that ended the run, if any, and the world after the run.
\<close>

definition main :: "date \<Rightarrow> feed \<Rightarrow> world \<Rightarrow> (error + unit) \<times> world" where
  "main today response w =
     (case read_config w of
        Inl e \<Rightarrow> (Inl e, w)
      | Inr cfg \<Rightarrow>
          if py_round2 (total_services cfg) \<noteq> py_round2 (get_default (amount_excl_tax cfg) 0)
          then (Inl (ValueError (reconciliation_message cfg)), w)
          else generate cfg today response w)"

section \<open>An example configuration\<close>

text \<open>A configuration with every field of the data model, used to run the model.\<close>

definition example_company :: "string \<rightharpoonup> string" where
  "example_company =
     [''legal_name'' \<mapsto> ''Acme Software EI'', ''business_name'' \<mapsto> ''Acme'',
      ''contact_name'' \<mapsto> ''Nicolas'', ''email'' \<mapsto> ''nicolas@acme.example'',
      ''phone'' \<mapsto> ''+33 1 23 45 67 89'', ''address'' \<mapsto> ''1 rue de la Paix, 75002 Paris'',
      ''siret'' \<mapsto> ''12345678900012'']"

definition example_receiver :: "string \<rightharpoonup> string" where
  "example_receiver = [''name'' \<mapsto> ''Client Inc.'', ''address'' \<mapsto> ''2 Main Street, Springfield'']"

definition example_bank :: "string \<rightharpoonup> string" where
  "example_bank =
     [''account_holder'' \<mapsto> ''Acme Software EI'', ''routing_number'' \<mapsto> ''084009519'',
      ''account_number'' \<mapsto> ''9600000000'', ''account_type'' \<mapsto> ''Checking'',
      ''bank'' \<mapsto> ''Community Federal Savings Bank'',
      ''bank_address'' \<mapsto> ''89-16 Jamaica Ave, Woodhaven, NY 11421'']"

definition example_service :: service where
  "example_service =
     \<lparr>description = Some ''Software development'', unit_name = Some ''Month'',
      quantity = Some 1, amount_usd = Some 3000\<rparr>"

definition example_invoice :: invoice_info where
  "example_invoice = \<lparr>due_days = Some 30, last_invoice_number = Some 6\<rparr>"

definition example_config :: config where
  "example_config =
     \<lparr>company = Some example_company, receiver = Some example_receiver,
      services = Some [example_service], invoice = Some example_invoice,
      amount_excl_tax = Some 3000, vat = Some 0, amount_incl_tax = Some 3000,
      vat_note = Some ''VAT not applicable'', payment_methods = Some ''Transfer'',
      bank_details = Some example_bank, output_name = Some ''Nicolas'',
      exchange_rate = None, exchange_rate_note = None\<rparr>"

definition example_world :: world where
  "example_world =
     \<lparr>config_file = Some example_config, files = Map.empty, directories = {}, printed = []\<rparr>"

definition example_today :: date where
  "example_today = \<lparr>year = 2024, month = 11, day = 5\<rparr>"

text \<open>A feed with two days that have a rate and a day without.\<close>

definition example_cubes :: "(string \<times> rat option) list" where
  "example_cubes = [(''2024-11-04'', Some (105 / 100)), (''2024-11-03'', None),
                    (''2024-11-01'', Some (104 / 100))]"

section \<open>Properties\<close>

subsection \<open>Digits and dates\<close>

lemma digit_char_simps:
  "digit_char 0 = CHR ''0''" "digit_char 1 = CHR ''1''" "digit_char 2 = CHR ''2''"
  "digit_char 3 = CHR ''3''" "digit_char 4 = CHR ''4''" "digit_char 5 = CHR ''5''"
  "digit_char 6 = CHR ''6''" "digit_char 7 = CHR ''7''" "digit_char 8 = CHR ''8''"
  "digit_char 9 = CHR ''9''"
  by code_simp+

lemma is_digit_digit_char: "n < 10 \<Longrightarrow> is_digit (digit_char n)"
  by (simp add: is_digit_def digit_char_def)

lemma digit_val_digit_char: "n < 10 \<Longrightarrow> digit_val (digit_char n) = n"
  by (simp add: digit_val_def digit_char_def)

lemma str_nat_1: "n < 10 \<Longrightarrow> str_nat n = [digit_char n]"
  by (simp add: str_nat.simps)

lemma str_nat_step: "10 \<le> n \<Longrightarrow> str_nat n = str_nat (n div 10) @ [digit_char (n mod 10)]"
  by (subst str_nat.simps) simp

lemma str_nat_2: "10 \<le> n \<Longrightarrow> n < 100 \<Longrightarrow> str_nat n = [digit_char (n div 10), digit_char (n mod 10)]"
  by (simp add: str_nat_step str_nat_1)

lemma str_nat_3: "100 \<le> n \<Longrightarrow> n < 1000 \<Longrightarrow>
  str_nat n = [digit_char (n div 100), digit_char (n div 10 mod 10), digit_char (n mod 10)]"
  by (simp add: str_nat_step [of n] str_nat_2 div_mult2_eq[symmetric])

lemma str_nat_4: "1000 \<le> n \<Longrightarrow> n < 10000 \<Longrightarrow>
  str_nat n = [digit_char (n div 1000), digit_char (n div 100 mod 10),
               digit_char (n div 10 mod 10), digit_char (n mod 10)]"
  by (simp add: str_nat_step [of n] str_nat_3 div_mult2_eq[symmetric])

lemma zero_pad_2: "n < 100 \<Longrightarrow> zero_pad 2 (str_nat n) = [digit_char (n div 10), digit_char (n mod 10)]"
  by (cases "n < 10") (simp_all add: zero_pad_def str_nat_1 str_nat_2 digit_char_simps)

lemma nat_of_digits_snoc: "nat_of_digits (xs @ [c]) = 10 * nat_of_digits xs + digit_val c"
  by (simp add: nat_of_digits_def)

lemma nat_of_digits_str_nat: "nat_of_digits (str_nat n) = n"
proof (induction n rule: str_nat.induct)
  case (1 n)
  show ?case
  proof (cases "n < 10")
    case True
    then show ?thesis by (simp add: str_nat_1 nat_of_digits_def digit_val_digit_char)
  next
    case False
    then show ?thesis
      using 1 by (simp add: str_nat_step nat_of_digits_snoc digit_val_digit_char)
  qed
qed

lemma digits_str_nat: "list_all is_digit (str_nat n)"
proof (induction n rule: str_nat.induct)
  case (1 n)
  show ?case
  proof (cases "n < 10")
    case True
    then show ?thesis by (simp add: str_nat_1 is_digit_digit_char)
  next
    case False
    then show ?thesis
      using 1 by (simp add: str_nat_step is_digit_digit_char)
  qed
qed

lemma str_nat_not_Nil: "str_nat n \<noteq> []"
  by (subst str_nat.simps) simp

lemma parse_field_two:
  "parse_field ok [a, b] = Some (v, []) \<Longrightarrow> parse_field ok (a # b # r) = Some (v, r)"
  by (auto split: if_splits)

lemma parse_day_closed:
  "\<forall>d \<in> set [1..<32]. parse_field day2_ok (zero_pad 2 (str_nat d)) = Some (d, [])"
  by code_simp

lemma parse_month_closed:
  "\<forall>d \<in> set [1..<13]. parse_field month2_ok (zero_pad 2 (str_nat d)) = Some (d, [])"
  by code_simp

lemma parse_day_fmt:
  assumes "1 \<le> d" "d \<le> 31"
  shows "parse_field day2_ok (zero_pad 2 (str_nat d) @ r) = Some (d, r)"
proof -
  have z: "zero_pad 2 (str_nat d) = [digit_char (d div 10), digit_char (d mod 10)]"
    using assms by (simp add: zero_pad_2)
  have "parse_field day2_ok (zero_pad 2 (str_nat d)) = Some (d, [])"
    using parse_day_closed assms by simp
  then have "parse_field day2_ok (digit_char (d div 10) # digit_char (d mod 10) # r) = Some (d, r)"
    unfolding z by (rule parse_field_two)
  then show ?thesis by (simp only: z append_Cons append_Nil)
qed

lemma parse_month_fmt:
  assumes "1 \<le> d" "d \<le> 12"
  shows "parse_field month2_ok (zero_pad 2 (str_nat d) @ r) = Some (d, r)"
proof -
  have z: "zero_pad 2 (str_nat d) = [digit_char (d div 10), digit_char (d mod 10)]"
    using assms by (simp add: zero_pad_2)
  have "parse_field month2_ok (zero_pad 2 (str_nat d)) = Some (d, [])"
    using parse_month_closed assms by simp
  then have "parse_field month2_ok (digit_char (d div 10) # digit_char (d mod 10) # r) = Some (d, r)"
    unfolding z by (rule parse_field_two)
  then show ?thesis by (simp only: z append_Cons append_Nil)
qed

lemma days_in_month_le: "days_in_month y m \<le> 31"
  by (simp add: days_in_month_def)

text \<open>
  A date of the years 1000 to 9999, printed with \<^verbatim>\<open>%d/%m/%Y\<close>, is read back by
  \<open>strptime\<close>.
\<close>

lemma strptime_strftime:
  assumes "valid_date d" "1000 \<le> year d"
  shows "strptime (strftime_slash d) = Inr d"
proof -
  have d: "1 \<le> day d" "day d \<le> 31"
    using assms(1) days_in_month_le [of "year d" "month d"] by (auto simp: valid_date_def)
  have m: "1 \<le> month d" "month d \<le> 12" using assms(1) by (auto simp: valid_date_def)
  have y: "1000 \<le> year d" "year d < 10000" using assms by (auto simp: valid_date_def)
  have r: "\<lparr>year = year d, month = month d, day = day d\<rparr> = d" by simp
  have l: "length (str_nat (year d)) = 4" using y by (simp add: str_nat_4)
  show ?thesis
    unfolding strptime_def strftime_slash_def fmt_dd_def fmt_mm_def fmt_yyyy_def
    using assms(1)
    by (simp add: parse_day_fmt [OF d] parse_month_fmt [OF m] l digits_str_nat
          nat_of_digits_str_nat r)
qed

lemma digit_char_Suc_0: "digit_char (Suc 0) = CHR ''1''"
  by code_simp

lemma nat_of_digits_zeros: "nat_of_digits (replicate k CHR ''0'' @ s) = nat_of_digits s"
proof -
  have "foldl (\<lambda>acc c. 10 * acc + digit_val c) 0 (replicate k CHR ''0'') = 0"
    by (induction k) (simp_all add: digit_val_def)
  then show ?thesis by (simp add: nat_of_digits_def)
qed

lemma fmt_02d_nonneg:
  assumes "0 \<le> m"
  shows "2 \<le> length (fmt_02d m)" "list_all is_digit (fmt_02d m)"
    "int (nat_of_digits (fmt_02d m)) = m"
proof -
  have f: "fmt_02d m = replicate (2 - length (str_nat (nat m))) CHR ''0'' @ str_nat (nat m)"
    using assms by (simp add: fmt_02d_def zero_pad_def)
  show "2 \<le> length (fmt_02d m)" unfolding f by simp
  have "is_digit CHR ''0''" by (simp add: is_digit_def)
  then show "list_all is_digit (fmt_02d m)"
    unfolding f using digits_str_nat [of "nat m"] by (auto simp: list_all_iff)
  show "int (nat_of_digits (fmt_02d m)) = m"
    unfolding f using assms by (simp add: nat_of_digits_zeros nat_of_digits_str_nat)
qed

subsection \<open>Invoice numbering\<close>

text \<open>
  Claim C6. The invoice identifier is a function of the emission date and of the previous
  sequence number alone. For a date of today in the years 1000 to 9999 and a
  configuration whose last invoice number is \<open>n\<close>, the new number is \<open>n + 1\<close> and the
  identifier is the prefix, the date as two digits of the day, two digits of the month
  and the year, separated by hyphens, a hyphen, and \<open>n + 1\<close> in the format \<^verbatim>\<open>02d\<close>;
  when \<open>n + 1\<close> is not negative that is a string of at least two decimal digits whose
  value is \<open>n + 1\<close>.
\<close>

theorem invoice_id_spec:
  assumes "valid_date d" and "1000 \<le> year d"
    and "invoice cfg = Some info" and "last_invoice_number info = Some n"
  shows "next_invoice_id cfg d =
           Inr (n + 1,
                invoice_prefix
                @ [digit_char (day d div 10), digit_char (day d mod 10), CHR ''-'',
                   digit_char (month d div 10), digit_char (month d mod 10), CHR ''-'']
                @ str_nat (year d) @ ''-'' @ fmt_02d (n + 1))
         \<and> generate_invoice_id (strftime_slash d) (n + 1) =
             Inr (invoice_prefix @ strftime_dash d @ ''-'' @ fmt_02d (n + 1))
         \<and> (0 \<le> n + 1 \<longrightarrow>
               2 \<le> length (fmt_02d (n + 1)) \<and> list_all is_digit (fmt_02d (n + 1))
               \<and> int (nat_of_digits (fmt_02d (n + 1))) = n + 1)"
proof -
  have dm: "day d < 100" "month d < 100"
    using assms(1) days_in_month_le [of "year d" "month d"] by (auto simp: valid_date_def)
  have g: "generate_invoice_id (strftime_slash d) (n + 1) =
             Inr (invoice_prefix @ strftime_dash d @ ''-'' @ fmt_02d (n + 1))"
    by (simp add: generate_invoice_id_def strptime_strftime [OF assms(1,2)])
  have s: "strftime_dash d =
      [digit_char (day d div 10), digit_char (day d mod 10), CHR ''-'',
       digit_char (month d div 10), digit_char (month d mod 10), CHR ''-''] @ str_nat (year d)"
    using dm by (simp add: strftime_dash_def fmt_dd_def fmt_mm_def fmt_yyyy_def zero_pad_2)
  have "next_invoice_id cfg d = Inr (n + 1, invoice_prefix @ strftime_dash d @ ''-'' @ fmt_02d (n + 1))"
    using assms(3,4) g by (simp add: next_invoice_id_def and_then_def getitem_def Let_def)
  then show ?thesis
    using g s fmt_02d_nonneg [of "n + 1"] by simp
qed

theorem invoice_id_spec_witness:
  "valid_date example_today \<and> 1000 \<le> year example_today
   \<and> invoice example_config = Some example_invoice
   \<and> last_invoice_number example_invoice = Some 6
   \<and> next_invoice_id example_config example_today = Inr (7, invoice_prefix @ ''05-11-2024-07'')"
proof -
  have h: "valid_date example_today" "1000 \<le> year example_today"
    "invoice example_config = Some example_invoice"
    "last_invoice_number example_invoice = Some 6"
    by (simp_all add: valid_date_def example_today_def days_in_month_def example_config_def
          example_invoice_def)
  have y: "str_nat 2024 = ''2024''" by code_simp
  have f: "fmt_02d 7 = ''07''" by code_simp
  show ?thesis
    using h invoice_id_spec [OF h]
    by (simp add: example_today_def digit_char_simps digit_char_Suc_0 y f)
qed

subsection \<open>Reconciliation of the total\<close>

lemma get_default_simps [simp]: "get_default None d = d" "get_default (Some x) d = x"
  by (simp_all add: get_default_def)







subsection \<open>Drawing never fails on its own\<close>

lemma wrap_width_values:
  "wrap_width ((width - 2 * margin - 40) / 2 - 36) 11 = Inr 34"
  "wrap_width ((width - 2 * margin - 40) / 2 - 36) 10 = Inr 38"
  "wrap_width (col_widths ! 1) table_font_size = Inr 27"
  "wrap_width (width - 2 * margin) 9 = Inr 108"
  "wrap_width (width - 2 * margin - 36) 10 = Inr 90"
  by (simp_all add: wrap_width_def py_int_def width_def mm_def margin_def col_widths_def
      table_font_size_def floor_eq_iff)

lemma and_then_simps [simp]: "and_then (Inr v) f = f v" "and_then (Inl e) f = Inl e"
  by (simp_all add: and_then_def)

lemma getitem_simps [simp]: "getitem (Some v) k = Inr v" "getitem None k = Inl (KeyError k)"
  by (simp_all add: getitem_def)

lemma textwrap_wrap_pos: "0 < w \<Longrightarrow> textwrap_wrap t w = Inr (wrap_text (nat w) t)"
  by (simp add: textwrap_wrap_def)

lemma wrap_lines_ok:
  assumes "wrap_width mw fs = Inr w" "0 < w"
  shows "wrap_lines mw fs ls = Inr (concat (map (wrap_text (nat w)) ls))"
  using assms by (induction ls) (simp_all add: textwrap_wrap_pos)

lemma draw_wrapped_text_ok:
  assumes "wrap_width mw fs = Inr w" "0 < w"
  shows "draw_wrapped_text t x y mw fs gap =
           Inr (map (\<lambda>(i, l). DrawString x (y - of_nat i * gap) l)
                  (enumerate 0 (concat (map (wrap_text (nat w)) (split_nl t)))),
                y - of_nat (length (concat (map (wrap_text (nat w)) (split_nl t)))) * gap,
                length (concat (map (wrap_text (nat w)) (split_nl t))))"
  by (simp add: draw_wrapped_text_def wrap_lines_ok [OF assms])

lemma draw_texts_ok:
  assumes "\<forall>(t, fs) \<in> set ts. \<exists>w. wrap_width mw fs = Inr w \<and> 0 < w"
  shows "\<exists>ops y'. draw_texts ts x y mw gap = Inr (ops, y')"
  using assms
proof (induction ts arbitrary: y)
  case Nil
  then show ?case by simp
next
  case (Cons a ts)
  obtain t fs where a: "a = (t, fs)" by (cases a)
  obtain w where w: "wrap_width mw fs = Inr w" "0 < w" using Cons.prems a by auto
  obtain ops y' where r: "draw_texts ts x
      (y - of_nat (length (concat (map (wrap_text (nat w)) (split_nl t)))) * gap) mw gap = Inr (ops, y')"
    using Cons.IH Cons.prems by fastforce
  show ?case by (simp add: a draw_wrapped_text_ok [OF w] r)
qed

lemma draw_fields_ok:
  assumes "\<forall>(k, p, fs) \<in> set fl. k \<in> dom d \<and> (\<exists>w. wrap_width mw fs = Inr w \<and> 0 < w)"
  shows "\<exists>ops y'. draw_fields d fl x y mw gap = Inr (ops, y')"
  using assms
proof (induction fl arbitrary: y)
  case Nil
  then show ?case by simp
next
  case (Cons a fl)
  obtain k p fs where a: "a = (k, p, fs)" by (cases a)
  obtain w v where w: "wrap_width mw fs = Inr w" "0 < w" and v: "d k = Some v"
    using Cons.prems a by auto
  obtain ops y' where r: "draw_fields d fl x
      (y - of_nat (length (concat (map (wrap_text (nat w)) (split_nl (p @ v))))) * gap) mw gap = Inr (ops, y')"
    using Cons.IH Cons.prems by fastforce
  show ?case by (simp add: a v draw_wrapped_text_ok [OF w] r)
qed

lemma draw_fields_missing:
  assumes "\<forall>(k', p', fs') \<in> set pre. k' \<in> dom d \<and> (\<exists>w. wrap_width mw fs' = Inr w \<and> 0 < w)"
    and "d k = None"
  shows "draw_fields d (pre @ (k, p, fs) # post) x y mw gap = Inl (KeyError k)"
  using assms
proof (induction pre arbitrary: y)
  case Nil
  then show ?case by simp
next
  case (Cons a pre)
  obtain k' p' fs' where a: "a = (k', p', fs')" by (cases a)
  obtain w v where w: "wrap_width mw fs' = Inr w" "0 < w" and v: "d k' = Some v"
    using Cons.prems a by auto
  have "draw_fields d (pre @ (k, p, fs) # post) x
      (y - of_nat (length (concat (map (wrap_text (nat w)) (split_nl (p' @ v))))) * gap) mw gap
       = Inl (KeyError k)"
    using Cons.IH Cons.prems by fastforce
  then show ?case by (simp add: a v draw_wrapped_text_ok [OF w])
qed

lemma parties_section_ok:
  assumes "company cfg = Some c" "set company_keys \<subseteq> dom c"
    and "receiver cfg = Some r" "set receiver_keys \<subseteq> dom r"
  shows "\<exists>ops. parties_section cfg lang y = Inr (ops, y - 220)"
proof -
  let ?mw = "(width - 2 * margin - 40) / 2 - 36"
  have s: "\<exists>ops y'. draw_fields c
        [(''legal_name'', [], 11), (''business_name'', [], 10),
         (''contact_name'', [], 10), (''email'', [], 10), (''phone'', [], 10),
         (''address'', [], 10), (''siret'', ''SIRET: '', 10)] x y ?mw gap = Inr (ops, y')" for x y gap
    using assms(2) by (intro draw_fields_ok) (auto simp: wrap_width_values company_keys_def)
  have t: "\<exists>ops y'. draw_fields r [(''name'', [], 11), (''address'', [], 10)] x y ?mw gap
        = Inr (ops, y')" for x y gap
    using assms(4) by (intro draw_fields_ok) (auto simp: wrap_width_values receiver_keys_def)
  obtain ops1 y1 where 1: "draw_fields c
        [(''legal_name'', [], 11), (''business_name'', [], 10),
         (''contact_name'', [], 10), (''email'', [], 10), (''phone'', [], 10),
         (''address'', [], 10), (''siret'', ''SIRET: '', 10)] (margin + 18) (y - 22 - 18) ?mw 18 = Inr (ops1, y1)"
    using s by blast
  obtain ops2 y2 where 2: "draw_fields r [(''name'', [], 11), (''address'', [], 10)]
       (margin + (width - 2 * margin - 40) / 2 + 40 + 18) (y - 22 - 18) ?mw 18 = Inr (ops2, y2)"
    using t by blast
  show ?thesis
    using 1 2 unfolding parties_section_def Let_def
    by (simp add: assms(1,3) del: draw_fields.simps)
qed

lemma service_row_ok: "\<exists>row. service_row i s = Inr row"
  unfolding service_row_def wrap_table_cell_def wrap_width_values and_then_simps Let_def
  by (simp add: textwrap_wrap_pos)

lemma service_rows_ok: "\<exists>rows. service_rows i ss = Inr rows"
proof (induction ss arbitrary: i)
  case Nil
  then show ?case by simp
next
  case (Cons s ss)
  obtain row where r: "service_row i s = Inr row" using service_row_ok by blast
  obtain rows where rs: "service_rows (i + 1) ss = Inr rows" using Cons.IH by blast
  show ?case using r rs by simp
qed

lemma table_section_ok: "\<exists>ops y'. table_section cfg lang y = Inr (ops, y')"
proof -
  obtain rows where rs: "service_rows 1 (get_default (services cfg) []) = Inr rows"
    using service_rows_ok by blast
  show ?thesis
    unfolding table_section_def rs and_then_simps Let_def
    by (simp split: prod.splits)
qed

lemma note_wrap_eq: "note_wrap t = Inr (wrap_text 90 t)"
  by (simp add: note_wrap_def wrap_width_values textwrap_wrap_pos)

lemma draw_note_lines_mem:
  assumes "l \<in> set ls"
  shows "\<exists>y. DrawString (margin + 18) y l \<in> set (draw_note_lines ls ty)"
proof -
  obtain i where i: "i < length ls" "ls ! i = l" using assms by (auto simp: in_set_conv_nth)
  then have "(i, l) \<in> set (enumerate 0 ls)" by (auto simp: in_set_enumerate_eq)
  then have "DrawString (margin + 18) (ty - of_nat i * 14) l \<in> set (draw_note_lines ls ty)"
    unfolding draw_note_lines_def by force
  then show ?thesis by blast
qed

lemma payment_section_ok:
  "\<exists>ops y'. payment_section cfg lang y = Inr (ops, y')
     \<and> (\<forall>l \<in> set (wrap_text 90 (if lang = Fr then labels cfg lang L_exchange_rate_note
                                       else get_default (exchange_rate_note cfg) [])).
            \<exists>x y. DrawString x y l \<in> set ops)"
proof -
  define exch where "exch = (if lang = Fr then labels cfg lang L_exchange_rate_note
                             else get_default (exchange_rate_note cfg) [])"
  have "\<exists>pre vl ty sy. payment_section cfg lang y
          = Inr (pre @ draw_note_lines (vl @ wrap_text 90 exch) ty, sy)"
    unfolding payment_section_def note_wrap_eq and_then_simps Let_def exch_def
    by (simp only: append_assoc [symmetric]) (intro exI, rule refl)
  then obtain pre vl ty sy where
    p: "payment_section cfg lang y = Inr (pre @ draw_note_lines (vl @ wrap_text 90 exch) ty, sy)"
    by blast
  have "\<exists>x y. DrawString x y l \<in> set (pre @ draw_note_lines (vl @ wrap_text 90 exch) ty)"
    if "l \<in> set (wrap_text 90 exch)" for l
    using draw_note_lines_mem [of l "vl @ wrap_text 90 exch" ty] that by auto
  then show ?thesis
    unfolding exch_def [symmetric] p by blast
qed

lemma bank_section_ok: "\<exists>ops. bank_section cfg lang y = Inr ops"
proof -
  have "\<exists>ops y'. draw_texts (bank_texts cfg lang) x y (width - 2 * margin) gap = Inr (ops, y')"
    for x y gap
    by (intro draw_texts_ok) (auto simp: bank_texts_def Let_def wrap_width_values)
  then obtain ops y' where
    "draw_texts (bank_texts cfg lang) margin
       ((if y < margin + 100 then height - margin - 32 else y) - 14) (width - 2 * margin) 11 = Inr (ops, y')"
    by blast
  then show ?thesis
    unfolding bank_section_def Let_def by simp
qed

lemma draw_invoice_ok:
  assumes "due_date_str cfg d = Inr due"
    and "company cfg = Some c" "set company_keys \<subseteq> dom c"
    and "receiver cfg = Some r" "set receiver_keys \<subseteq> dom r"
  shows "\<exists>ops. draw_invoice cfg ident d lang = Inr ops
     \<and> (\<forall>l \<in> set (wrap_text 90 (if lang = Fr then labels cfg lang L_exchange_rate_note
                                       else get_default (exchange_rate_note cfg) [])).
            \<exists>x y. DrawString x y l \<in> set ops)"
proof -
  obtain ops1 y1 where 1: "header_section cfg lang ident d due = (ops1, y1)"
    by (cases "header_section cfg lang ident d due")
  obtain ops2 where 2: "parties_section cfg lang y1 = Inr (ops2, y1 - 220)"
    using parties_section_ok [OF assms(2-5)] by blast
  obtain ops3 y3 where 3: "table_section cfg lang (y1 - 220) = Inr (ops3, y3)"
    using table_section_ok by blast
  obtain ops4 y4 where 4: "payment_section cfg lang y3 = Inr (ops4, y4)"
    and n: "\<forall>l \<in> set (wrap_text 90 (if lang = Fr then labels cfg lang L_exchange_rate_note
                                       else get_default (exchange_rate_note cfg) [])).
            \<exists>x y. DrawString x y l \<in> set ops4"
    using payment_section_ok [of cfg lang y3] by blast
  obtain ops5 where 5: "bank_section cfg lang y4 = Inr ops5"
    using bank_section_ok by blast
  have "draw_invoice cfg ident d lang = Inr (ops1 @ ops2 @ ops3 @ ops4 @ ops5)"
    by (simp add: draw_invoice_def assms(1) 1 2 3 4 5)
  moreover have "\<exists>x y. DrawString x y l \<in> set (ops1 @ ops2 @ ops3 @ ops4 @ ops5)"
    if l: "l \<in> set (wrap_text 90 (if lang = Fr then labels cfg lang L_exchange_rate_note
                                       else get_default (exchange_rate_note cfg) []))" for l
  proof -
    obtain x y where "DrawString x y l \<in> set ops4" using n l by blast
    then have "DrawString x y l \<in> set (ops1 @ ops2 @ ops3 @ ops4 @ ops5)" by simp
    then show ?thesis by blast
  qed
  ultimately show ?thesis by blast
qed

subsection \<open>The steps of a run\<close>

lemma fetch_frame:
  assumes "fetch_and_update_exchange_rate cfg s r = Inr cfg1"
  shows "\<exists>note rate. cfg1 = cfg\<lparr>exchange_rate_note := Some note, exchange_rate := Some rate\<rparr>"
  using assms
  by (auto simp: fetch_and_update_exchange_rate_def split: sum.splits prod.splits)

lemma create_invoice_pdf_cases:
  assumes "create_invoice_pdf cfg ident p d l w = (r, w')"
  shows "(\<exists>e. r = Inl e \<and> draw_invoice cfg ident d l = Inl e \<and> w' = w)
       \<or> (\<exists>ops. r = Inr () \<and> draw_invoice cfg ident d l = Inr ops
             \<and> w' = w\<lparr>files := (files w)(p \<mapsto> ops)\<rparr>)"
  using assms by (auto simp: create_invoice_pdf_def split: sum.splits)

lemma generate_Inl:
  assumes "generate cfg today response w = (Inl e, w')"
  shows "config_file w' = config_file w"
  using assms
  by (auto simp: generate_def Let_def create_invoice_pdf_def write_config_def
      split: sum.splits prod.splits)

lemma generate_Inr:
  assumes "generate cfg today response w = (Inr u, w')"
  shows "\<exists>n ident cfg1 p1 p2 o1 o2.
           next_invoice_id cfg today = Inr (n, ident)
         \<and> fetch_and_update_exchange_rate cfg (strftime_slash today) response = Inr cfg1
         \<and> pdf_paths cfg1 today = Inr (p1, p2)
         \<and> draw_invoice cfg1 ident (strftime_slash today) En = Inr o1
         \<and> draw_invoice cfg1 ident (strftime_slash today) Fr = Inr o2
         \<and> w' = w\<lparr>directories := insert PDF_OUTPUT_DIR (directories w),
                   files := (files w)(p1 \<mapsto> o1, p2 \<mapsto> o2),
                   printed := printed w @ [''Invoice generated: '' @ p1,
                                           ''Invoice generated (French): '' @ p2],
                   config_file := Some (cfg1\<lparr>invoice :=
                       Some ((get_default (invoice cfg1) \<lparr>due_days = None, last_invoice_number = None\<rparr>)
                               \<lparr>last_invoice_number := Some n\<rparr>)\<rparr>)\<rparr>"
  using assms
  by (auto simp: generate_def Let_def create_invoice_pdf_def write_config_def
      split: sum.splits prod.splits)

lemma pdf_paths_ok:
  assumes "1 \<le> month today" "month today \<le> 12"
  shows "\<exists>p1 p2. pdf_paths cfg today = Inr (p1, p2) \<and> p1 \<noteq> p2"
proof -
  define mes where "mes = meses_en ! (month today - 1)"
  have i: "py_index meses_en (int (month today) - 1) = Inr mes"
    using assms by (auto simp: py_index_def meses_en_def mes_def nat_diff_distrib)
  define nome where "nome = get_default (output_name cfg) ''Nicolas''"
  have j: "path_join PDF_OUTPUT_DIR (nome @ '' - '' @ mes @ s)
         = (if nome \<noteq> [] \<and> hd nome = CHR ''/'' then nome @ '' - '' @ mes @ s
            else ''invoices/'' @ nome @ '' - '' @ mes @ s)" for s
    by (cases nome) (auto simp: path_join_def PDF_OUTPUT_DIR_def)
  have "pdf_paths cfg today = Inr (path_join PDF_OUTPUT_DIR (nome @ '' - '' @ mes @ ''.pdf''),
                                   path_join PDF_OUTPUT_DIR (nome @ '' - '' @ mes @ '' fr.pdf''))"
    by (simp add: pdf_paths_def Let_def i nome_def)
  moreover have "path_join PDF_OUTPUT_DIR (nome @ '' - '' @ mes @ ''.pdf'')
               \<noteq> path_join PDF_OUTPUT_DIR (nome @ '' - '' @ mes @ '' fr.pdf'')"
    unfolding j by auto
  ultimately show ?thesis by blast
qed

lemma fetch_ok:
  assumes "strptime s = Inr dt"
  shows "\<exists>note rate. fetch_and_update_exchange_rate cfg s response
            = Inr (cfg\<lparr>exchange_rate_note := Some note, exchange_rate := Some rate\<rparr>)"
  using assms by (auto simp: fetch_and_update_exchange_rate_def split: sum.splits prod.splits)


lemma generate_ok:
  assumes d: "valid_date today" "1000 \<le> year today"
    and i: "invoice cfg = Some info" "last_invoice_number info = Some n"
    and due: "add_days today (get_default (due_days info) 0) = Inr due"
    and c: "company cfg = Some c" "set company_keys \<subseteq> dom c"
    and r: "receiver cfg = Some r" "set receiver_keys \<subseteq> dom r"
  shows "\<exists>ident note rate p1 p2 o1 o2.
           next_invoice_id cfg today = Inr (n + 1, ident)
         \<and> fetch_and_update_exchange_rate cfg (strftime_slash today) response
             = Inr (cfg\<lparr>exchange_rate_note := Some note, exchange_rate := Some rate\<rparr>)
         \<and> pdf_paths cfg today = Inr (p1, p2) \<and> p1 \<noteq> p2
         \<and> (\<forall>l \<in> set (wrap_text 90 note). \<exists>x y. DrawString x y l \<in> set o1)
         \<and> (\<forall>l \<in> set (wrap_text 90 (french_note note)). \<exists>x y. DrawString x y l \<in> set o2)
         \<and> generate cfg today response w
             = (Inr (),
                w\<lparr>directories := insert PDF_OUTPUT_DIR (directories w),
                  files := (files w)(p1 \<mapsto> o1, p2 \<mapsto> o2),
                  printed := printed w @ [''Invoice generated: '' @ p1,
                                          ''Invoice generated (French): '' @ p2],
                  config_file := Some (cfg\<lparr>exchange_rate_note := Some note, exchange_rate := Some rate,
                                            invoice := Some (info\<lparr>last_invoice_number := Some (n + 1)\<rparr>)\<rparr>)\<rparr>)"
proof -
  have sp: "strptime (strftime_slash today) = Inr today" by (rule strptime_strftime [OF d])
  obtain ident where nid: "next_invoice_id cfg today = Inr (n + 1, ident)"
    by (simp add: next_invoice_id_def i generate_invoice_id_def sp Let_def)
  obtain msg rate where f: "fetch_and_update_exchange_rate cfg (strftime_slash today) response
             = Inr (cfg\<lparr>exchange_rate_note := Some msg, exchange_rate := Some rate\<rparr>)"
    using fetch_ok [OF sp] by blast
  define cfg1 where "cfg1 = cfg\<lparr>exchange_rate_note := Some msg, exchange_rate := Some rate\<rparr>"
  have m: "1 \<le> month today" "month today \<le> 12" using d(1) by (auto simp: valid_date_def)
  obtain p1 p2 where p: "pdf_paths cfg today = Inr (p1, p2)" "p1 \<noteq> p2"
    using pdf_paths_ok [OF m] by blast
  have p': "pdf_paths cfg1 today = Inr (p1, p2)"
    using p(1) by (simp add: pdf_paths_def cfg1_def)
  have dd: "due_date_str cfg1 (strftime_slash today) = Inr (strftime_slash due)"
    by (simp add: due_date_str_def cfg1_def i sp due)
  have c1: "company cfg1 = Some c" "receiver cfg1 = Some r" by (simp_all add: cfg1_def c r)
  obtain o1 where o1: "draw_invoice cfg1 ident (strftime_slash today) En = Inr o1"
    and n1: "\<forall>l \<in> set (wrap_text 90 msg). \<exists>x y. DrawString x y l \<in> set o1"
    using draw_invoice_ok [OF dd c1(1) c(2) c1(2) r(2), of ident En] by (auto simp: cfg1_def)
  obtain o2 where o2: "draw_invoice cfg1 ident (strftime_slash today) Fr = Inr o2"
    and n2: "\<forall>l \<in> set (wrap_text 90 (french_note msg)). \<exists>x y. DrawString x y l \<in> set o2"
    using draw_invoice_ok [OF dd c1(1) c(2) c1(2) r(2), of ident Fr] by (auto simp: cfg1_def)
  have "generate cfg today response w
             = (Inr (),
                w\<lparr>directories := insert PDF_OUTPUT_DIR (directories w),
                  files := (files w)(p1 \<mapsto> o1, p2 \<mapsto> o2),
                  printed := printed w @ [''Invoice generated: '' @ p1,
                                          ''Invoice generated (French): '' @ p2],
                  config_file := Some (cfg1\<lparr>invoice := Some (info\<lparr>last_invoice_number := Some (n + 1)\<rparr>)\<rparr>)\<rparr>)"
    using p' o1 o2 unfolding generate_def nid f cfg1_def
    by (simp add: create_invoice_pdf_def write_config_def Let_def i)
  then show ?thesis
    using nid f p n1 n2 unfolding cfg1_def by blast
qed

subsection \<open>The configuration file\<close>

lemma next_invoice_id_Inr:
  assumes "next_invoice_id cfg today = Inr (m, ident)"
  shows "\<exists>info n. invoice cfg = Some info \<and> last_invoice_number info = Some n \<and> m = n + 1"
proof -
  obtain info where i: "invoice cfg = Some info"
    using assms by (cases "invoice cfg") (auto simp: next_invoice_id_def)
  obtain n where n: "last_invoice_number info = Some n"
    using assms i by (cases "last_invoice_number info") (auto simp: next_invoice_id_def)
  have "m = n + 1"
    using assms i n by (auto simp: next_invoice_id_def Let_def and_then_def split: sum.splits)
  then show ?thesis using i n by blast
qed

lemma pdf_paths_distinct:
  assumes "pdf_paths cfg today = Inr (p1, p2)"
  shows "p1 \<noteq> p2"
proof -
  obtain mes where i: "py_index meses_en (int (month today) - 1) = Inr mes"
    using assms by (cases "py_index meses_en (int (month today) - 1)") (auto simp: pdf_paths_def)
  define nome where "nome = get_default (output_name cfg) ''Nicolas''"
  have j: "path_join PDF_OUTPUT_DIR (nome @ '' - '' @ mes @ s)
         = (if nome \<noteq> [] \<and> hd nome = CHR ''/'' then nome @ '' - '' @ mes @ s
            else ''invoices/'' @ nome @ '' - '' @ mes @ s)" for s
    by (cases nome) (auto simp: path_join_def PDF_OUTPUT_DIR_def)
  have "p1 = path_join PDF_OUTPUT_DIR (nome @ '' - '' @ mes @ ''.pdf'')"
       "p2 = path_join PDF_OUTPUT_DIR (nome @ '' - '' @ mes @ '' fr.pdf'')"
    using assms by (simp_all add: pdf_paths_def Let_def i nome_def)
  then show ?thesis unfolding j by auto
qed

lemma example_facts:
  "valid_date example_today" "1000 \<le> year example_today"
  "invoice example_config = Some example_invoice"
  "last_invoice_number example_invoice = Some 6"
  "company example_config = Some example_company" "set company_keys \<subseteq> dom example_company"
  "receiver example_config = Some example_receiver" "set receiver_keys \<subseteq> dom example_receiver"
  "config_file example_world = Some example_config"
  by (simp_all add: valid_date_def example_today_def days_in_month_def example_config_def
      example_invoice_def example_company_def example_receiver_def company_keys_def
      receiver_keys_def example_world_def)

lemma next_day_iter:
  "day d + k \<le> days_in_month (year d) (month d) \<Longrightarrow> (next_day ^^ k) d = d\<lparr>day := day d + k\<rparr>"
proof (induction k)
  case 0
  then show ?case by simp
next
  case (Suc k)
  then have h: "(next_day ^^ k) d = d\<lparr>day := day d + k\<rparr>" by simp
  have n: "next_day (d\<lparr>day := day d + k\<rparr>) = d\<lparr>day := day d + Suc k\<rparr>"
    using Suc.prems by (simp add: next_day_def)
  have "(next_day ^^ Suc k) d = next_day ((next_day ^^ k) d)" by simp
  then show ?case by (simp only: h n)
qed

lemma example_due:
  "add_days example_today (get_default (due_days example_invoice) 0)
     = Inr \<lparr>year = 2024, month = 12, day = 5\<rparr>"
proof -
  have a: "(next_day ^^ 25) example_today = \<lparr>year = 2024, month = 11, day = 30\<rparr>"
    using next_day_iter [of example_today 25] by (simp add: example_today_def days_in_month_def)
  have b: "next_day \<lparr>year = 2024, month = 11, day = 30\<rparr> = \<lparr>year = 2024, month = 12, day = 1\<rparr>"
    by (simp add: next_day_def days_in_month_def)
  have c: "(next_day ^^ 4) \<lparr>year = 2024, month = 12, day = 1\<rparr> = \<lparr>year = 2024, month = 12, day = 5\<rparr>"
    using next_day_iter [of "\<lparr>year = 2024, month = 12, day = 1\<rparr>" 4] by (simp add: days_in_month_def)
  have "(next_day ^^ (4 + (1 + 25))) example_today = \<lparr>year = 2024, month = 12, day = 5\<rparr>"
    using a b c unfolding funpow_add by simp
  then have "(next_day ^^ 30) example_today = \<lparr>year = 2024, month = 12, day = 5\<rparr>" by simp
  then show ?thesis
    by (simp add: add_days_def example_invoice_def get_default_def)
qed

lemma example_reconciles:
  "py_round2 (total_services example_config)
     = py_round2 (get_default (amount_excl_tax example_config) 0)"
  by (simp add: total_services_def example_config_def example_service_def)

text \<open>
  Claim C7. When a run ends with an exception, the configuration file is what it was.
  When a run succeeds, the configuration written at the end is the configuration that
  was read, changed in \<^verbatim>\<open>exchange_rate_note\<close>, in \<^verbatim>\<open>exchange_rate\<close> and in
  \<^verbatim>\<open>last_invoice_number\<close> of \<^verbatim>\<open>invoice\<close> only (the last is the old number plus one), and
  both documents were drawn without an exception and are in their files.
\<close>

theorem config_frame:
  assumes "main today response w = (res, w')"
  shows "(\<forall>e. res = Inl e \<longrightarrow> config_file w' = config_file w)
       \<and> (res = Inr () \<longrightarrow>
            (\<exists>cfg info n msg rate ident p1 p2 o1 o2.
                config_file w = Some cfg \<and> invoice cfg = Some info
              \<and> last_invoice_number info = Some n
              \<and> config_file w' =
                  Some (cfg\<lparr>exchange_rate_note := Some msg, exchange_rate := Some rate,
                           invoice := Some (info\<lparr>last_invoice_number := Some (n + 1)\<rparr>)\<rparr>)
              \<and> draw_invoice (cfg\<lparr>exchange_rate_note := Some msg, exchange_rate := Some rate\<rparr>)
                    ident (strftime_slash today) En = Inr o1
              \<and> draw_invoice (cfg\<lparr>exchange_rate_note := Some msg, exchange_rate := Some rate\<rparr>)
                    ident (strftime_slash today) Fr = Inr o2
              \<and> files w' p1 = Some o1 \<and> files w' p2 = Some o2))"
proof (intro conjI allI impI)
  fix e assume "res = Inl e"
  then have m: "main today response w = (Inl e, w')" using assms by simp
  show "config_file w' = config_file w"
  proof (cases "config_file w")
    case None
    then show ?thesis using m by (simp add: main_def read_config_def)
  next
    case (Some cfg)
    show ?thesis
    proof (cases "py_round2 (total_services cfg) = py_round2 (get_default (amount_excl_tax cfg) 0)")
      case True
      then have "generate cfg today response w = (Inl e, w')"
        using m Some by (simp add: main_def read_config_def)
      then show ?thesis by (rule generate_Inl)
    next
      case False
      then show ?thesis using m Some by (simp add: main_def read_config_def)
    qed
  qed
next
  assume "res = Inr ()"
  then have m: "main today response w = (Inr (), w')" using assms by simp
  then obtain cfg where c: "config_file w = Some cfg"
    by (cases "config_file w") (auto simp: main_def read_config_def)
  have g: "generate cfg today response w = (Inr (), w')"
    using m c by (auto simp: main_def read_config_def split: if_splits)
  from generate_Inr [OF g] obtain m' ident cfg1 p1 p2 o1 o2 where
    n: "next_invoice_id cfg today = Inr (m', ident)"
    and f: "fetch_and_update_exchange_rate cfg (strftime_slash today) response = Inr cfg1"
    and p: "pdf_paths cfg1 today = Inr (p1, p2)"
    and d: "draw_invoice cfg1 ident (strftime_slash today) En = Inr o1"
           "draw_invoice cfg1 ident (strftime_slash today) Fr = Inr o2"
    and w': "w' = w\<lparr>directories := insert PDF_OUTPUT_DIR (directories w),
                   files := (files w)(p1 \<mapsto> o1, p2 \<mapsto> o2),
                   printed := printed w @ [''Invoice generated: '' @ p1,
                                           ''Invoice generated (French): '' @ p2],
                   config_file := Some (cfg1\<lparr>invoice :=
                       Some ((get_default (invoice cfg1) \<lparr>due_days = None, last_invoice_number = None\<rparr>)
                               \<lparr>last_invoice_number := Some m'\<rparr>)\<rparr>)\<rparr>"
    by blast
  obtain info n where i: "invoice cfg = Some info" "last_invoice_number info = Some n" "m' = n + 1"
    using next_invoice_id_Inr [OF n] by blast
  obtain msg rate where c1: "cfg1 = cfg\<lparr>exchange_rate_note := Some msg, exchange_rate := Some rate\<rparr>"
    using fetch_frame [OF f] by blast
  have ne: "p1 \<noteq> p2" using pdf_paths_distinct [OF p] .
  have "config_file w' =
          Some (cfg\<lparr>exchange_rate_note := Some msg, exchange_rate := Some rate,
                   invoice := Some (info\<lparr>last_invoice_number := Some (n + 1)\<rparr>)\<rparr>)"
    by (simp add: w' c1 i)
  moreover have "files w' p1 = Some o1" "files w' p2 = Some o2"
    using ne by (simp_all add: w')
  ultimately show "\<exists>cfg info n msg rate ident p1 p2 o1 o2.
                config_file w = Some cfg \<and> invoice cfg = Some info
              \<and> last_invoice_number info = Some n
              \<and> config_file w' =
                  Some (cfg\<lparr>exchange_rate_note := Some msg, exchange_rate := Some rate,
                           invoice := Some (info\<lparr>last_invoice_number := Some (n + 1)\<rparr>)\<rparr>)
              \<and> draw_invoice (cfg\<lparr>exchange_rate_note := Some msg, exchange_rate := Some rate\<rparr>)
                    ident (strftime_slash today) En = Inr o1
              \<and> draw_invoice (cfg\<lparr>exchange_rate_note := Some msg, exchange_rate := Some rate\<rparr>)
                    ident (strftime_slash today) Fr = Inr o2
              \<and> files w' p1 = Some o1 \<and> files w' p2 = Some o2"
    using c i d unfolding c1 by blast
qed

lemma example_run:
  "\<exists>w'. main example_today response example_world = (Inr (), w')"
proof -
  have "\<exists>w'. generate example_config example_today response example_world = (Inr (), w')"
    using generate_ok [OF example_facts(1-4) example_due example_facts(5-8),
        of response example_world] by blast
  then show ?thesis
    using example_reconciles by (simp add: main_def read_config_def example_facts(9))
qed

theorem config_frame_witness:
  "\<exists>w'. main example_today (Inl (FetchError ''timeout'')) example_world = (Inr (), w')
      \<and> (\<exists>msg rate. config_file w' =
            Some (example_config\<lparr>exchange_rate_note := Some msg, exchange_rate := Some rate,
                    invoice := Some (example_invoice\<lparr>last_invoice_number := Some 7\<rparr>)\<rparr>))"
proof -
  obtain w' where m: "main example_today (Inl (FetchError ''timeout'')) example_world = (Inr (), w')"
    using example_run by blast
  from config_frame [OF m] show ?thesis
    using m by (auto simp: example_facts)
qed

subsection \<open>Failure of the exchange rate\<close>








subsection \<open>Names of the files\<close>

text \<open>
  Claim C4 fails on the code. The list of month names has an empty entry at index 0, and
  the script indexes it with the number of the month minus one: in March the files are
  named after February, and in January the month is empty.
\<close>

theorem month_name_off_by_one:
  "pdf_paths example_config \<lparr>year = 2024, month = 3, day = 15\<rparr>
     = Inr (''invoices/Nicolas - February.pdf'', ''invoices/Nicolas - February fr.pdf'')
   \<and> pdf_paths example_config \<lparr>year = 2024, month = 1, day = 15\<rparr>
     = Inr (''invoices/Nicolas - .pdf'', ''invoices/Nicolas -  fr.pdf'')"
  by code_simp

end
